theory Spec2Isabelle
  imports Main
begin

section \<open>Python values\<close>

text \<open>
  A Python \<^verbatim>\<open>str\<close> is a sequence of Unicode code points, so it is modelled as a list of
  natural numbers (the Hebrew titles of the library are outside the 8-bit range of
  \<^typ>\<open>char\<close>). \<open>ascii\<close> embeds an ASCII literal.
\<close>

type_synonym ustr = "nat list"

definition ascii :: "string \<Rightarrow> ustr" where
  "ascii s = map of_char s"

text \<open>
  The values that \<^verbatim>\<open>resp.json()\<close> returns and that the helpers build: \<^verbatim>\<open>None\<close>, booleans,
  integers, strings, lists and dicts. A dict is an association list in insertion order,
  read through \<open>map_of\<close>; decoded JSON objects have string keys, the dicts the helpers
  build may be keyed by any hashable value. JSON numbers with a fraction are not
  modelled, and keys are compared structurally (Python's \<^verbatim>\<open>True == 1\<close> is not modelled).
\<close>

datatype pyval =
    PNone
  | PBool bool
  | PInt int
  | PStr ustr
  | PList "pyval list"
  | PDict "(pyval \<times> pyval) list"

type_synonym pydict = "(pyval \<times> pyval) list"

definition key :: "string \<Rightarrow> pyval" where
  "key k = PStr (ascii k)"

text \<open>\<^verbatim>\<open>k in d\<close>, \<^verbatim>\<open>d.get(k)\<close> and \<^verbatim>\<open>d.get(k, default)\<close> on a dict.\<close>

definition has_key :: "pydict \<Rightarrow> string \<Rightarrow> bool" where
  "has_key d k = (map_of d (key k) \<noteq> None)"

definition dict_get_default :: "pydict \<Rightarrow> string \<Rightarrow> pyval \<Rightarrow> pyval" where
  "dict_get_default d k dflt = (case map_of d (key k) of None \<Rightarrow> dflt | Some v \<Rightarrow> v)"

definition dict_get :: "pydict \<Rightarrow> string \<Rightarrow> pyval" where
  "dict_get d k = dict_get_default d k PNone"

text \<open>Truth value testing, as \<^verbatim>\<open>if x\<close>, \<^verbatim>\<open>not x\<close> and \<^verbatim>\<open>x or y\<close> apply it.\<close>

fun truthy :: "pyval \<Rightarrow> bool" where
  "truthy PNone = False"
| "truthy (PBool b) = b"
| "truthy (PInt n) = (n \<noteq> 0)"
| "truthy (PStr s) = (s \<noteq> [])"
| "truthy (PList xs) = (xs \<noteq> [])"
| "truthy (PDict d) = (d \<noteq> [])"

definition py_or :: "pyval \<Rightarrow> pyval \<Rightarrow> pyval" where
  "py_or a b = (if truthy a then a else b)"

text \<open>
  The remote endpoints the wrappers call, and the exceptions of the model. The three
  upstream failures carry the endpoint whose call raised, as the Python exception
  carries the request URL.
\<close>

datatype endpoint = Texts | Links | RefTopicLinks | TextsV3 | Related

datatype py_error =
    TypeError
  | AttributeError
  | IndexError
  | KeyError
  | ValueError
  | TransportError endpoint
  | HTTPStatusError endpoint nat
  | JSONDecodeError endpoint
  | HTTPException nat endpoint

text \<open>\<^verbatim>\<open>x.get(k)\<close> on an arbitrary value: only a dict has the method.\<close>

definition attr_get :: "pyval \<Rightarrow> string \<Rightarrow> py_error + pyval" where
  "attr_get x k = (case x of PDict d \<Rightarrow> Inr (dict_get d k) | _ \<Rightarrow> Inl AttributeError)"

section \<open>Topic simplifiers (endpoints3+4+5demo.py)\<close>

definition BLACKLISTED_TOPIC_IDS :: "ustr set" where
  "BLACKLISTED_TOPIC_IDS = {ascii ''ai''}"

text \<open>
  The first loop of \<^verbatim>\<open>extract_topic_slugs\<close>: entries that are not dicts, ids that are not
  strings and blacklisted ids are skipped (\<^verbatim>\<open>continue\<close>). The two functions of the
  same names in 5-get-topics/fetch_topics.py are these without the test against
  \<^verbatim>\<open>BLACKLISTED_TOPIC_IDS\<close>.
\<close>

fun collect_slugs :: "pyval list \<Rightarrow> ustr list" where
  "collect_slugs [] = []"
| "collect_slugs (item # rest) =
     (case item of
        PDict d \<Rightarrow>
          (case dict_get d ''topic'' of
             PStr topic_id \<Rightarrow>
               if topic_id \<in> BLACKLISTED_TOPIC_IDS then collect_slugs rest
               else topic_id # collect_slugs rest
           | _ \<Rightarrow> collect_slugs rest)
      | _ \<Rightarrow> collect_slugs rest)"

text \<open>The second loop: \<^verbatim>\<open>if s not in seen: seen.add(s); uniq.append(s)\<close>.\<close>

fun dedupe :: "'a set \<Rightarrow> 'a list \<Rightarrow> 'a list" where
  "dedupe seen [] = []"
| "dedupe seen (s # ss) =
     (if s \<in> seen then dedupe seen ss else s # dedupe (insert s seen) ss)"

definition extract_topic_slugs :: "pyval \<Rightarrow> ustr list" where
  "extract_topic_slugs raw_topics =
     (case raw_topics of
        PList items \<Rightarrow> dedupe {} (collect_slugs items)
      | _ \<Rightarrow> [])"

text \<open>
  The body of the loop of \<^verbatim>\<open>extract_topic_objects\<close> for a dict entry with a string id.
  Each \<^verbatim>\<open>.get\<close> on a value that came out of \<^verbatim>\<open>x or {}\<close> raises AttributeError when that
  value is a non-empty string, a non-empty list, a number or \<^verbatim>\<open>True\<close>.
\<close>

definition topic_object :: "pydict \<Rightarrow> ustr \<Rightarrow> py_error + pyval" where
  "topic_object item topic_id =
     (let data_source = py_or (dict_get item ''dataSource'') (PDict []) in
      case attr_get data_source ''slug'' of
        Inl e \<Rightarrow> Inl e
      | Inr source_slug \<Rightarrow>
          (let descriptions = py_or (dict_get item ''descriptions'') (PDict []) in
           case attr_get descriptions ''en'' of
             Inl e \<Rightarrow> Inl e
           | Inr en \<Rightarrow>
               (let en_desc = py_or en (PDict []) in
                case attr_get en_desc ''title'' of
                  Inl e \<Rightarrow> Inl e
                | Inr t \<Rightarrow>
                    (case (if truthy t then Inr t else attr_get en_desc ''ai_title'') of
                       Inl e \<Rightarrow> Inl e
                     | Inr title \<Rightarrow>
                         Inr (PDict [(key ''id'', PStr topic_id),
                                     (key ''title'', title),
                                     (key ''source'', source_slug)])))))"

fun collect_topics :: "pyval list \<Rightarrow> py_error + pyval list" where
  "collect_topics [] = Inr []"
| "collect_topics (item # rest) =
     (case item of
        PDict d \<Rightarrow>
          (case dict_get d ''topic'' of
             PStr topic_id \<Rightarrow>
               if topic_id \<in> BLACKLISTED_TOPIC_IDS then collect_topics rest
               else (case topic_object d topic_id of
                       Inl e \<Rightarrow> Inl e
                     | Inr obj \<Rightarrow>
                         (case collect_topics rest of
                            Inl e \<Rightarrow> Inl e
                          | Inr objs \<Rightarrow> Inr (obj # objs)))
           | _ \<Rightarrow> collect_topics rest)
      | _ \<Rightarrow> collect_topics rest)"

text \<open>
  \<^verbatim>\<open>tid = t.get("id")\<close> in the de-duplication loop; every \<open>t\<close> there is a dict built by
  \<open>topic_object\<close>.
\<close>

definition topic_tid :: "pyval \<Rightarrow> pyval" where
  "topic_tid t = (case t of PDict d \<Rightarrow> dict_get d ''id'' | _ \<Rightarrow> PNone)"

fun dedupe_by_id :: "pyval set \<Rightarrow> pyval list \<Rightarrow> pyval list" where
  "dedupe_by_id seen [] = []"
| "dedupe_by_id seen (t # ts) =
     (if topic_tid t \<in> seen then dedupe_by_id seen ts
      else t # dedupe_by_id (insert (topic_tid t) seen) ts)"

definition extract_topic_objects :: "pyval \<Rightarrow> py_error + pyval list" where
  "extract_topic_objects raw_topics =
     (case raw_topics of
        PList items \<Rightarrow>
          (case collect_topics items of
             Inl e \<Rightarrow> Inl e
           | Inr topics \<Rightarrow> Inr (dedupe_by_id {} topics))
      | _ \<Rightarrow> Inr [])"

text \<open>A raw topic link that carries only its id, \<^verbatim>\<open>{"topic": t}\<close>.\<close>

definition topic_link :: "string \<Rightarrow> pyval" where
  "topic_link t = PDict [(key ''topic'', PStr (ascii t))]"

section \<open>Cleaning a text line (endpoints3+4+5demo.py, 3-get-texts/neat_text_fetch.py)\<close>

subsection \<open>The library functions that \<^verbatim>\<open>clean_he_string\<close> calls\<close>

text \<open>
  \<^verbatim>\<open>html.unescape\<close> of CPython 3.11 (\<^verbatim>\<open>html/__init__.py\<close>). The table of named character
  references \<^verbatim>\<open>html.entities.html5\<close> has 2231 entries and is a parameter \<open>html5\<close> of the
  model. The pattern is
  \<^verbatim>\<open>&(#[0-9]+;?|#[xX][0-9a-fA-F]+;?|[^\t\n\f <&#;]{1,32};?)\<close>;
  \<open>match_charref\<close> returns its group 1 for the text that follows an ampersand. The limit
  of 4300 digits that \<^verbatim>\<open>int()\<close> puts on a decimal literal is not modelled.
\<close>

definition is_digit :: "nat \<Rightarrow> bool" where
  "is_digit c = (48 \<le> c \<and> c \<le> 57)"

definition is_hexdigit :: "nat \<Rightarrow> bool" where
  "is_hexdigit c = (is_digit c \<or> (97 \<le> c \<and> c \<le> 102) \<or> (65 \<le> c \<and> c \<le> 70))"

definition is_name_char :: "nat \<Rightarrow> bool" where
  "is_name_char c = (c \<notin> {9, 10, 12, 32, 60, 38, 35, 59})"

definition opt_semicolon :: "ustr \<Rightarrow> ustr" where
  "opt_semicolon rest = (case rest of [] \<Rightarrow> [] | c # _ \<Rightarrow> if c = 59 then [59] else [])"

definition match_charref :: "ustr \<Rightarrow> ustr option" where
  "match_charref cs =
     (case cs of
        [] \<Rightarrow> None
      | c # ds \<Rightarrow>
          if c = 35 then
            (let digits = takeWhile is_digit ds in
             if digits \<noteq> [] then Some (35 # digits @ opt_semicolon (dropWhile is_digit ds))
             else
               (case ds of
                  [] \<Rightarrow> None
                | x # hs \<Rightarrow>
                    if x = 120 \<or> x = 88 then
                      (let hex = takeWhile is_hexdigit hs in
                       if hex \<noteq> [] then Some (35 # x # hex @ opt_semicolon (dropWhile is_hexdigit hs))
                       else None)
                    else None))
          else
            (let name = take 32 (takeWhile is_name_char cs) in
             if name \<noteq> [] then Some (name @ opt_semicolon (drop (length name) cs)) else None))"

definition invalid_charrefs :: "(nat \<times> ustr) list" where
  "invalid_charrefs =
     [(0x00, [0xfffd]), (0x0d, [0x0d]), (0x80, [0x20ac]), (0x81, [0x81]), (0x82, [0x201a]),
      (0x83, [0x0192]), (0x84, [0x201e]), (0x85, [0x2026]), (0x86, [0x2020]), (0x87, [0x2021]),
      (0x88, [0x02c6]), (0x89, [0x2030]), (0x8a, [0x0160]), (0x8b, [0x2039]), (0x8c, [0x0152]),
      (0x8d, [0x8d]), (0x8e, [0x017d]), (0x8f, [0x8f]), (0x90, [0x90]), (0x91, [0x2018]),
      (0x92, [0x2019]), (0x93, [0x201c]), (0x94, [0x201d]), (0x95, [0x2022]), (0x96, [0x2013]),
      (0x97, [0x2014]), (0x98, [0x02dc]), (0x99, [0x2122]), (0x9a, [0x0161]), (0x9b, [0x203a]),
      (0x9c, [0x0153]), (0x9d, [0x9d]), (0x9e, [0x017e]), (0x9f, [0x0178])]"

definition invalid_codepoints :: "nat \<Rightarrow> bool" where
  "invalid_codepoints n =
     ((0x1 \<le> n \<and> n \<le> 0x8) \<or> (0xe \<le> n \<and> n \<le> 0x1f) \<or> (0x7f \<le> n \<and> n \<le> 0x9f)
      \<or> (0xfdd0 \<le> n \<and> n \<le> 0xfdef) \<or> n = 0xb
      \<or> (n \<le> 0x10ffff \<and> (n mod 0x10000 = 0xfffe \<or> n mod 0x10000 = 0xffff)))"

definition digit_val :: "nat \<Rightarrow> nat" where
  "digit_val c = (if is_digit c then c - 48 else if 97 \<le> c then c - 87 else c - 55)"

definition int_of :: "nat \<Rightarrow> ustr \<Rightarrow> nat" where
  "int_of base ds = foldl (\<lambda>n c. n * base + digit_val c) 0 ds"

definition rstrip_semicolon :: "ustr \<Rightarrow> ustr" where
  "rstrip_semicolon s = rev (dropWhile (\<lambda>c. c = 59) (rev s))"

text \<open>
  The loop \<^verbatim>\<open>for x in range(len(s)-1, 1, -1)\<close> of \<^verbatim>\<open>_replace_charref\<close>, with its \<^verbatim>\<open>else\<close>
  branch: the longest proper prefix of at least two characters that is in the table.
\<close>

fun longest_name :: "(ustr \<rightharpoonup> ustr) \<Rightarrow> ustr \<Rightarrow> nat \<Rightarrow> ustr" where
  "longest_name html5 s 0 = 38 # s"
| "longest_name html5 s (Suc x) =
     (if Suc x \<le> 1 then 38 # s
      else (case html5 (take (Suc x) s) of
              Some r \<Rightarrow> r @ drop (Suc x) s
            | None \<Rightarrow> longest_name html5 s x))"

definition replace_charref :: "(ustr \<rightharpoonup> ustr) \<Rightarrow> ustr \<Rightarrow> ustr" where
  "replace_charref html5 s =
     (case s of
        [] \<Rightarrow> []
      | c # rest \<Rightarrow>
          if c = 35 then
            (let num = (case rest of
                          [] \<Rightarrow> 0
                        | x # hex \<Rightarrow>
                            if x = 120 \<or> x = 88 then int_of 16 (rstrip_semicolon hex)
                            else int_of 10 (rstrip_semicolon rest)) in
             case map_of invalid_charrefs num of
               Some r \<Rightarrow> r
             | None \<Rightarrow>
                 if (0xD800 \<le> num \<and> num \<le> 0xDFFF) \<or> num > 0x10FFFF then [0xFFFD]
                 else if invalid_codepoints num then []
                 else [num])
          else
            (case html5 s of
               Some r \<Rightarrow> r
             | None \<Rightarrow> longest_name html5 s (length s - 1)))"

text \<open>\<^verbatim>\<open>_charref.sub(_replace_charref, s)\<close>: the matches are found from left to right and a
  replacement is not scanned again.\<close>

fun charref_sub :: "(ustr \<rightharpoonup> ustr) \<Rightarrow> ustr \<Rightarrow> ustr" where
  "charref_sub html5 [] = []"
| "charref_sub html5 (c # cs) =
     (if c = 38 then
        (case match_charref cs of
           Some g \<Rightarrow> replace_charref html5 g @ charref_sub html5 (drop (length g) cs)
         | None \<Rightarrow> c # charref_sub html5 cs)
      else c # charref_sub html5 cs)"

definition html_unescape :: "(ustr \<rightharpoonup> ustr) \<Rightarrow> ustr \<Rightarrow> ustr" where
  "html_unescape html5 s = (if 38 \<notin> set s then s else charref_sub html5 s)"

text \<open>
  \<^verbatim>\<open>TAG_RE.sub("", s)\<close> with \<^verbatim>\<open>TAG_RE = re.compile(r"<.*?>", flags=re.DOTALL)\<close>: from a
  \<^verbatim>\<open><\<close> the lazy match runs to the first \<^verbatim>\<open>>\<close> after it, across line ends; a \<^verbatim>\<open><\<close> with
  no \<^verbatim>\<open>>\<close> after it stays.
\<close>

function TAG_RE_sub :: "ustr \<Rightarrow> ustr" where
  "TAG_RE_sub [] = []"
| "TAG_RE_sub (c # cs) =
     (if c = 60 \<and> 62 \<in> set cs then TAG_RE_sub (tl (dropWhile (\<lambda>x. x \<noteq> 62) cs))
      else c # TAG_RE_sub cs)"
  by pat_completeness auto
termination
  by (relation "measure length")
     (auto simp: less_Suc_eq_le intro: le_trans [OF diff_le_self length_dropWhile_le])

text \<open>The replacement of U+00A0 (no-break space) by a space.\<close>

definition replace_nbsp :: "ustr \<Rightarrow> ustr" where
  "replace_nbsp s = map (\<lambda>c. if c = 0xa0 then 0x20 else c) s"

text \<open>
  \<^verbatim>\<open>s.split()\<close> without arguments splits at runs of whitespace and returns no empty
  word; whitespace is what \<^verbatim>\<open>str.isspace\<close> accepts.
\<close>

definition is_space :: "nat \<Rightarrow> bool" where
  "is_space c =
     ((0x9 \<le> c \<and> c \<le> 0xd) \<or> (0x1c \<le> c \<and> c \<le> 0x20) \<or> c = 0x85 \<or> c = 0xa0 \<or> c = 0x1680
      \<or> (0x2000 \<le> c \<and> c \<le> 0x200a) \<or> c = 0x2028 \<or> c = 0x2029 \<or> c = 0x202f \<or> c = 0x205f
      \<or> c = 0x3000)"

fun split_acc :: "ustr \<Rightarrow> ustr \<Rightarrow> ustr list" where
  "split_acc w [] = (if w = [] then [] else [w])"
| "split_acc w (c # cs) =
     (if is_space c then (if w = [] then split_acc [] cs else w # split_acc [] cs)
      else split_acc (w @ [c]) cs)"

definition str_split :: "ustr \<Rightarrow> ustr list" where
  "str_split s = split_acc [] s"

text \<open>\<^verbatim>\<open>sep.join(words)\<close>.\<close>

fun str_join :: "ustr \<Rightarrow> ustr list \<Rightarrow> ustr" where
  "str_join sep [] = []"
| "str_join sep [w] = w"
| "str_join sep (w # ws) = w @ sep @ str_join sep ws"

subsection \<open>\<^verbatim>\<open>clean_he_string\<close>\<close>

definition clean_he_string :: "(ustr \<rightharpoonup> ustr) \<Rightarrow> ustr \<Rightarrow> ustr" where
  "clean_he_string html5 raw =
     (let s = html_unescape html5 raw;
          s = TAG_RE_sub s;
          s = replace_nbsp s;
          s = str_join (ascii '' '') (str_split s)
      in s)"

text \<open>
  Eleven entries of \<^verbatim>\<open>html.entities.html5\<close>, for evaluating the cleaner on concrete
  lines.
\<close>

definition html5_excerpt :: "ustr \<rightharpoonup> ustr" where
  "html5_excerpt =
     map_of [(ascii ''amp;'', ascii ''&''), (ascii ''amp'', ascii ''&''),
             (ascii ''lt;'', ascii ''<''), (ascii ''lt'', ascii ''<''),
             (ascii ''gt;'', ascii ''>''), (ascii ''gt'', ascii ''>''),
             (ascii ''quot;'', [34]), (ascii ''quot'', [34]),
             (ascii ''nbsp;'', [0xa0]), (ascii ''nbsp'', [0xa0]),
             (ascii ''thinsp;'', [0x2009])]"

section \<open>Tree normalization (tree_of_life.py)\<close>

text \<open>
  A normalized node is the dict with the keys \<^verbatim>\<open>title\<close>, \<^verbatim>\<open>heTitle\<close>, \<^verbatim>\<open>type\<close>, \<^verbatim>\<open>path\<close> and
  \<^verbatim>\<open>children\<close> that \<^verbatim>\<open>_make_category_node\<close>, \<^verbatim>\<open>_make_book_node\<close> and \<^verbatim>\<open>build_library_tree\<close>
  build (the alias \<^verbatim>\<open>TreeNode\<close> of the source); \<^verbatim>\<open>type\<close> is one of the three strings
  \<^verbatim>\<open>"root"\<close>, \<^verbatim>\<open>"category"\<close>, \<^verbatim>\<open>"book"\<close>.
\<close>

datatype node_kind = Root | Category | Book

datatype TreeNode =
  TreeNode (node_title: pyval) (node_heTitle: pyval) (node_type: node_kind)
           (node_path: "pyval list") (node_children: "TreeNode list")

definition make_category_node :: "pyval \<Rightarrow> pyval \<Rightarrow> pyval list \<Rightarrow> TreeNode list \<Rightarrow> TreeNode" where
  "make_category_node title he_title path children = TreeNode title he_title Category path children"

definition make_book_node :: "pyval \<Rightarrow> pyval \<Rightarrow> pyval list \<Rightarrow> TreeNode" where
  "make_book_node title he_title path = TreeNode title he_title Book path []"

text \<open>
  \<^verbatim>\<open>k in x\<close> for a string literal \<open>k\<close>: key membership in a dict, element membership in a
  list, the substring test in a string, and TypeError for \<^verbatim>\<open>None\<close>, a boolean or a number.
\<close>

fun str_contains :: "ustr \<Rightarrow> ustr \<Rightarrow> bool" where
  "str_contains sub [] = (sub = [])"
| "str_contains sub (c # cs) = (take (length sub) (c # cs) = sub \<or> str_contains sub cs)"

definition py_contains :: "pyval \<Rightarrow> string \<Rightarrow> py_error + bool" where
  "py_contains x k =
     (case x of
        PDict d \<Rightarrow> Inr (has_key d k)
      | PList xs \<Rightarrow> Inr (key k \<in> set xs)
      | PStr s \<Rightarrow> Inr (str_contains (ascii k) s)
      | _ \<Rightarrow> Inl TypeError)"

text \<open>
  \<^verbatim>\<open>_normalize_node\<close> on a raw value that is not a dict: when one of the two membership
  tests succeeds on a list or a string, the subscript \<^verbatim>\<open>raw["category"]\<close> or
  \<^verbatim>\<open>raw["title"]\<close> raises TypeError.
\<close>

definition normalize_other :: "pyval \<Rightarrow> py_error + TreeNode option" where
  "normalize_other raw =
     (case py_contains raw ''category'' of
        Inl e \<Rightarrow> Inl e
      | Inr True \<Rightarrow> Inl TypeError
      | Inr False \<Rightarrow>
          (case py_contains raw ''title'' of
             Inl e \<Rightarrow> Inl e
           | Inr True \<Rightarrow> Inl TypeError
           | Inr False \<Rightarrow> Inr None))"

text \<open>\<^verbatim>\<open>children_raw = raw.get("contents", []) or []\<close>.\<close>

definition children_raw :: "pydict \<Rightarrow> pyval" where
  "children_raw raw = py_or (dict_get_default raw ''contents'' (PList [])) (PList [])"

text \<open>
  \<^verbatim>\<open>_normalize_node\<close>, with the loop over \<^verbatim>\<open>children_raw\<close> as \<open>normalize_children\<close>. The loop
  runs over the elements of a list and over the keys of a dict; over a string it runs
  over one-character strings, which contain neither \<^verbatim>\<open>"category"\<close> nor \<^verbatim>\<open>"title"\<close> and give
  no child; any other true value is not iterable.
\<close>

function normalize_node :: "pyval \<Rightarrow> pyval list \<Rightarrow> py_error + TreeNode option"
  and normalize_children :: "pyval list \<Rightarrow> pyval list \<Rightarrow> py_error + TreeNode list"
where
  "normalize_node raw parent_path =
     (case raw of
        PDict d \<Rightarrow>
          if has_key d ''category'' then
            (let title = dict_get d ''category'';
                 he_title = dict_get d ''heCategory'';
                 path = parent_path @ [title]
             in case (case children_raw d of
                        PList items \<Rightarrow> normalize_children items path
                      | PDict kvs \<Rightarrow> normalize_children (map fst kvs) path
                      | PStr s \<Rightarrow> Inr []
                      | _ \<Rightarrow> Inl TypeError) of
                  Inl e \<Rightarrow> Inl e
                | Inr children \<Rightarrow> Inr (Some (make_category_node title he_title path children)))
          else if has_key d ''title'' then
            (let title = dict_get d ''title'';
                 he_title = dict_get d ''heTitle'';
                 categories = dict_get d ''categories'';
                 path = (case categories of
                           PList cs \<Rightarrow> if cs \<noteq> [] then cs else parent_path @ [title]
                         | _ \<Rightarrow> parent_path @ [title])
             in Inr (Some (make_book_node title he_title path)))
          else Inr None
      | _ \<Rightarrow> normalize_other raw)"
| "normalize_children [] path = Inr []"
| "normalize_children (child_raw # rest) path =
     (case normalize_node child_raw path of
        Inl e \<Rightarrow> Inl e
      | Inr child_node \<Rightarrow>
          (case normalize_children rest path of
             Inl e \<Rightarrow> Inl e
           | Inr children \<Rightarrow>
               Inr (case child_node of None \<Rightarrow> children | Some n \<Rightarrow> n # children)))"
  by pat_completeness auto
termination
proof (relation "measure (\<lambda>x. case x of Inl (raw, _) \<Rightarrow> size raw
                                       | Inr (items, _) \<Rightarrow> size_list size items)", goal_cases)
  have m: "map_of d k = Some v \<Longrightarrow> size v < size (PDict d)" for d :: pydict and k v
    by (induction d) (auto split: if_splits)
  have c: "children_raw d = v \<Longrightarrow> v = PList [] \<or> size v < size (PDict d)" for d v
    by (auto simp: children_raw_def py_or_def dict_get_default_def
             split: option.splits if_splits dest: m)
  have k: "size_list size (map fst kvs) < size (PDict kvs)" for kvs :: pydict
    by (induction kvs) auto
  {
    case 1
    show ?case by simp
  next
    case (2 raw parent_path d title he_title path items)
    then show ?case using c [of d "PList items"] by auto
  next
    case (3 raw parent_path d title he_title path kvs)
    then show ?case using c [of d "PDict kvs"] k [of kvs] by auto
  next
    case 4
    then show ?case by simp
  next
    case 5
    then show ?case by simp
  }
qed

text \<open>
  \<^verbatim>\<open>build_library_tree\<close>. When \<^verbatim>\<open>index_data\<close> is \<^verbatim>\<open>None\<close> the index is fetched; \<open>fetched\<close> is
  the outcome of that call of \<^verbatim>\<open>fetch_full_library_index\<close> (cache file or request), which
  is outside the model.
\<close>

definition build_library_tree :: "py_error + pyval \<Rightarrow> pyval \<Rightarrow> py_error + TreeNode" where
  "build_library_tree fetched index_data =
     (case (if index_data = PNone then fetched else Inr index_data) of
        Inl e \<Rightarrow> Inl e
      | Inr data \<Rightarrow>
          (case data of
             PList items \<Rightarrow>
               (case normalize_children items [] of
                  Inl e \<Rightarrow> Inl e
                | Inr children \<Rightarrow> Inr (TreeNode (PStr (ascii ''root'')) PNone Root [] children))
           | _ \<Rightarrow> Inl ValueError))"

section \<open>Flattening and lookup (tree_of_life.py)\<close>

text \<open>The inner \<^verbatim>\<open>walk\<close> of \<^verbatim>\<open>build_flat_book_list\<close>; the result is the list \<^verbatim>\<open>books\<close>.\<close>

fun walk :: "TreeNode \<Rightarrow> pydict list" where
  "walk (TreeNode title he_title ty path children) =
     (if ty = Book
      then [[(key ''title'', title), (key ''heTitle'', he_title), (key ''path'', PList path)]]
      else [])
     @ concat (map walk children)"

definition build_flat_book_list :: "TreeNode \<Rightarrow> pydict list" where
  "build_flat_book_list tree = walk tree"

text \<open>
  \<^verbatim>\<open>build_title_lookup\<close>: a record is stored under its title and under its Hebrew title,
  each as it is, when the value is true; a list or a dict as key is unhashable.
\<close>

definition store :: "(pyval \<rightharpoonup> pydict) \<Rightarrow> pyval \<Rightarrow> pydict \<Rightarrow> py_error + (pyval \<rightharpoonup> pydict)" where
  "store lookup k b =
     (case k of
        PList _ \<Rightarrow> Inl TypeError
      | PDict _ \<Rightarrow> Inl TypeError
      | _ \<Rightarrow> Inr (lookup(k \<mapsto> b)))"

fun title_lookup_loop :: "(pyval \<rightharpoonup> pydict) \<Rightarrow> pydict list \<Rightarrow> py_error + (pyval \<rightharpoonup> pydict)" where
  "title_lookup_loop lookup [] = Inr lookup"
| "title_lookup_loop lookup (b # rest) =
     (let title = dict_get b ''title'';
          he_title = dict_get b ''heTitle''
      in case (if truthy title then store lookup title b else Inr lookup) of
           Inl e \<Rightarrow> Inl e
         | Inr lookup1 \<Rightarrow>
             (case (if truthy he_title then store lookup1 he_title b else Inr lookup1) of
                Inl e \<Rightarrow> Inl e
              | Inr lookup2 \<Rightarrow> title_lookup_loop lookup2 rest))"

definition build_title_lookup :: "pydict list \<Rightarrow> py_error + (pyval \<rightharpoonup> pydict)" where
  "build_title_lookup flat_books = title_lookup_loop Map.empty flat_books"

section \<open>Flattening and lookup (7-library-tree/make_tree.py)\<close>

text \<open>
  The inner \<^verbatim>\<open>_walk\<close> of \<^verbatim>\<open>flatten_library_tree\<close> is \<open>walk_list\<close>, and \<open>walk_item\<close> is the body
  of its loop; the result is what the call appends to \<^verbatim>\<open>books\<close>. A node that is not a dict
  raises TypeError, at the membership test or at the subscript that follows it.
\<close>

definition walk_other :: "pyval \<Rightarrow> py_error + pydict list" where
  "walk_other node =
     (case py_contains node ''category'' of
        Inl e \<Rightarrow> Inl e
      | Inr c \<Rightarrow>
          (case (if c then py_contains node ''contents'' else Inr False) of
             Inl e \<Rightarrow> Inl e
           | Inr True \<Rightarrow> Inl TypeError
           | Inr False \<Rightarrow>
               (case py_contains node ''title'' of
                  Inl e \<Rightarrow> Inl e
                | Inr True \<Rightarrow> Inl TypeError
                | Inr False \<Rightarrow> Inr [])))"

function walk_item :: "pyval \<Rightarrow> pyval list \<Rightarrow> py_error + pydict list"
  and walk_list :: "pyval list \<Rightarrow> pyval list \<Rightarrow> py_error + pydict list"
where
  "walk_item node trail =
     (case node of
        PDict d \<Rightarrow>
          if has_key d ''category'' \<and> has_key d ''contents'' then
            (let new_trail = trail @ [dict_get d ''category'']
             in case dict_get d ''contents'' of
                  PList items \<Rightarrow> walk_list items new_trail
                | PDict kvs \<Rightarrow> walk_list (map fst kvs) new_trail
                | PStr s \<Rightarrow> Inr []
                | _ \<Rightarrow> Inl TypeError)
          else if has_key d ''title'' then
            Inr [[(key ''title'', dict_get d ''title''),
                  (key ''heTitle'', dict_get d ''heTitle''),
                  (key ''categories'', PList trail)]]
          else Inr []
      | _ \<Rightarrow> walk_other node)"
| "walk_list [] trail = Inr []"
| "walk_list (node # rest) trail =
     (case walk_item node trail of
        Inl e \<Rightarrow> Inl e
      | Inr books \<Rightarrow>
          (case walk_list rest trail of
             Inl e \<Rightarrow> Inl e
           | Inr more \<Rightarrow> Inr (books @ more)))"
  by pat_completeness auto
termination
proof (relation "measure (\<lambda>x. case x of Inl (node, _) \<Rightarrow> size node
                                       | Inr (items, _) \<Rightarrow> size_list size items)", goal_cases)
  have m: "map_of d k = Some v \<Longrightarrow> size v < size (PDict d)" for d :: pydict and k v
    by (induction d) (auto split: if_splits)
  have g: "size (dict_get d k) < size (PDict d)" if "has_key d k" for d k
  proof -
    from that obtain v where v: "map_of d (key k) = Some v"
      by (auto simp: has_key_def)
    then show ?thesis
      using m [of d "key k" v] by (simp add: dict_get_def dict_get_default_def)
  qed
  have k: "size_list size (map fst kvs) < size (PDict kvs)" for kvs :: pydict
    by (induction kvs) auto
  {
    case 1
    show ?case by simp
  next
    case (2 node trail d new_trail items)
    then show ?case using g [of d "''contents''"] by auto
  next
    case (3 node trail d new_trail kvs)
    then show ?case using g [of d "''contents''"] k [of kvs] by auto
  next
    case 4
    then show ?case by simp
  next
    case 5
    then show ?case by simp
  }
qed

definition flatten_library_tree :: "pyval \<Rightarrow> py_error + pydict list" where
  "flatten_library_tree tree =
     (case tree of
        PList items \<Rightarrow> walk_list items []
      | PDict kvs \<Rightarrow> walk_list (map fst kvs) []
      | PStr s \<Rightarrow> Inr []
      | _ \<Rightarrow> Inl TypeError)"

text \<open>
  \<^verbatim>\<open>build_book_lookup\<close>. \<^verbatim>\<open>str.lower\<close> follows the Unicode case tables and is the parameter
  \<open>lower\<close> of the model; \<open>lower_ascii\<close> is \<^verbatim>\<open>str.lower\<close> on the strings whose cased
  characters are ASCII letters (Hebrew has no case).
\<close>

definition book_lookup_step :: "(ustr \<Rightarrow> ustr) \<Rightarrow> (ustr \<rightharpoonup> pydict) \<Rightarrow> pydict \<Rightarrow> (ustr \<rightharpoonup> pydict)" where
  "book_lookup_step lower lookup b =
     (let title = dict_get b ''title'';
          he_title = dict_get b ''heTitle'';
          lookup = (case title of PStr t \<Rightarrow> lookup(lower t \<mapsto> b) | _ \<Rightarrow> lookup);
          lookup = (case he_title of PStr h \<Rightarrow> lookup(h \<mapsto> b) | _ \<Rightarrow> lookup)
      in lookup)"

definition build_book_lookup :: "(ustr \<Rightarrow> ustr) \<Rightarrow> pydict list \<Rightarrow> (ustr \<rightharpoonup> pydict)" where
  "build_book_lookup lower books = foldl (book_lookup_step lower) Map.empty books"

definition lower_ascii :: "ustr \<Rightarrow> ustr" where
  "lower_ascii s = map (\<lambda>c. if 65 \<le> c \<and> c \<le> 90 then c + 32 else c) s"

section \<open>The remote gateway\<close>

text \<open>
  One upstream call either fails in transport (connection error, timeout) or yields a
  response with a status code and a body, which \<^verbatim>\<open>.json()\<close> may or may not decode. The
  gateway gives the outcome of the call to an endpoint for a reference path; query
  parameters (language, context, version) are not modelled.
\<close>

datatype reply = Transport_failure | Reply nat "pyval option"

type_synonym gateway = "endpoint \<Rightarrow> ustr \<Rightarrow> reply"

text \<open>\<^verbatim>\<open>ref.replace(" ", "_")\<close>.\<close>

definition ref_url :: "ustr \<Rightarrow> ustr" where
  "ref_url ref = map (\<lambda>c. if c = 32 then 95 else c) ref"

text \<open>
  The three lines that the wrappers of endpoints3+4+5demo.py share:
  \<^verbatim>\<open>resp = requests.get(url, ...)\<close>, \<^verbatim>\<open>resp.raise_for_status()\<close>, which raises for a status
  from 400 to 599, and \<^verbatim>\<open>return resp.json()\<close>.
\<close>

definition requests_get_json :: "gateway \<Rightarrow> endpoint \<Rightarrow> ustr \<Rightarrow> py_error + pyval" where
  "requests_get_json gw ep path =
     (case gw ep path of
        Transport_failure \<Rightarrow> Inl (TransportError ep)
      | Reply status body \<Rightarrow>
          if 400 \<le> status \<and> status < 600 then Inl (HTTPStatusError ep status)
          else (case body of None \<Rightarrow> Inl (JSONDecodeError ep) | Some v \<Rightarrow> Inr v))"

definition get_text :: "gateway \<Rightarrow> ustr \<Rightarrow> ustr \<Rightarrow> int \<Rightarrow> pyval \<Rightarrow> py_error + pyval" where
  "get_text gw ref lang context version = requests_get_json gw Texts (ref_url ref)"

definition get_links :: "gateway \<Rightarrow> ustr \<Rightarrow> py_error + pyval" where
  "get_links gw ref = requests_get_json gw Links (ref_url ref)"

definition get_ref_topics :: "gateway \<Rightarrow> ustr \<Rightarrow> py_error + pyval" where
  "get_ref_topics gw ref = requests_get_json gw RefTopicLinks (ref_url ref)"

section \<open>Link simplification (endpoints3+4+5demo.py)\<close>

text \<open>
  Iteration (\<^verbatim>\<open>for x in v\<close>) and the subscript \<^verbatim>\<open>v[0]\<close> on an arbitrary value: a list gives
  its elements, a string its one-character strings, a dict its keys, and its entry under
  the key 0 for the subscript.
\<close>

definition py_iter :: "pyval \<Rightarrow> py_error + pyval list" where
  "py_iter v =
     (case v of
        PList xs \<Rightarrow> Inr xs
      | PStr s \<Rightarrow> Inr (map (\<lambda>c. PStr [c]) s)
      | PDict d \<Rightarrow> Inr (map fst d)
      | _ \<Rightarrow> Inl TypeError)"

definition py_first :: "pyval \<Rightarrow> py_error + pyval" where
  "py_first v =
     (case v of
        PList xs \<Rightarrow> (case xs of [] \<Rightarrow> Inl IndexError | x # _ \<Rightarrow> Inr x)
      | PStr s \<Rightarrow> (case s of [] \<Rightarrow> Inl IndexError | c # _ \<Rightarrow> Inr (PStr [c]))
      | PDict d \<Rightarrow> (case map_of d (PInt 0) of None \<Rightarrow> Inl KeyError | Some x \<Rightarrow> Inr x)
      | _ \<Rightarrow> Inl TypeError)"

definition simplify_link :: "pyval \<Rightarrow> pyval \<Rightarrow> py_error + pydict" where
  "simplify_link link anchor_ref =
     (case link of
        PDict l \<Rightarrow>
          (let category = dict_get_default l ''category'' (PStr (ascii ''Unknown''));
               link_type = dict_get_default l ''type'' (PStr []);
               anchor = py_or (dict_get l ''anchorRef'') anchor_ref;
               refs = py_or (dict_get l ''refs'') (PList []);
               source_ref = dict_get l ''sourceRef''
           in case (if truthy source_ref then Inr source_ref
                    else (case py_iter refs of
                            Inl e \<Rightarrow> Inl e
                          | Inr rs \<Rightarrow>
                              (let candidates = filter (\<lambda>r. r \<noteq> anchor) rs
                               in if candidates \<noteq> [] then Inr (hd candidates)
                                  else if truthy refs then py_first refs
                                  else Inr anchor))) of
                Inl e \<Rightarrow> Inl e
              | Inr source_ref \<Rightarrow>
                  Inr [(key ''category'', category),
                       (key ''type'', link_type),
                       (key ''sourceRef'', source_ref),
                       (key ''anchorRef'', anchor)])
      | _ \<Rightarrow> Inl AttributeError)"

text \<open>
  \<^verbatim>\<open>d[k] = v\<close> on a dict in insertion order, and the hashable values: a list or a dict as
  key raises TypeError.
\<close>

fun dict_set :: "pydict \<Rightarrow> pyval \<Rightarrow> pyval \<Rightarrow> pydict" where
  "dict_set [] k v = [(k, v)]"
| "dict_set ((k', v') # rest) k v =
     (if k' = k then (k, v) # rest else (k', v') # dict_set rest k v)"

definition hashable :: "pyval \<Rightarrow> bool" where
  "hashable k = (case k of PList _ \<Rightarrow> False | PDict _ \<Rightarrow> False | _ \<Rightarrow> True)"

text \<open>The loop of \<^verbatim>\<open>build_related_by_category\<close> over the links, with \<^verbatim>\<open>grouped\<close> as state.\<close>

fun related_loop :: "pydict \<Rightarrow> pyval list \<Rightarrow> pyval \<Rightarrow> int \<Rightarrow> py_error + pydict" where
  "related_loop grouped [] anchor_ref max_per_cat = Inr grouped"
| "related_loop grouped (raw # rest) anchor_ref max_per_cat =
     (case simplify_link raw anchor_ref of
        Inl e \<Rightarrow> Inl e
      | Inr simplified \<Rightarrow>
          (let cat = dict_get simplified ''category'' in
           if \<not> hashable cat then Inl TypeError
           else
             (let grouped = (if map_of grouped cat = None then dict_set grouped cat (PList [])
                             else grouped);
                  entries = (case map_of grouped cat of Some (PList xs) \<Rightarrow> xs | _ \<Rightarrow> []);
                  grouped = (if int (length entries) < max_per_cat
                             then dict_set grouped cat (PList (entries @ [PDict simplified]))
                             else grouped)
              in related_loop grouped rest anchor_ref max_per_cat)))"

definition build_related_by_category :: "pyval \<Rightarrow> pyval \<Rightarrow> int \<Rightarrow> py_error + pydict" where
  "build_related_by_category links anchor_ref max_per_cat =
     (case py_iter links of
        Inl e \<Rightarrow> Inl e
      | Inr raws \<Rightarrow> related_loop [] raws anchor_ref max_per_cat)"

section \<open>The reference summary (endpoints3+4+5demo.py)\<close>

text \<open>
  The title: \<^verbatim>\<open>text_data.get("title") or text_data.get("book") or
  text_data.get("indexTitle") or (ref.split()[0] if ref else None)\<close>. A reference of
  whitespace only is true and splits into no word, so the subscript raises IndexError.
\<close>

definition summary_title :: "pydict \<Rightarrow> ustr \<Rightarrow> py_error + pyval" where
  "summary_title text_data ref =
     (if truthy (dict_get text_data ''title'') then Inr (dict_get text_data ''title'')
      else if truthy (dict_get text_data ''book'') then Inr (dict_get text_data ''book'')
      else if truthy (dict_get text_data ''indexTitle'') then Inr (dict_get text_data ''indexTitle'')
      else if ref \<noteq> [] then
        (case str_split ref of [] \<Rightarrow> Inl IndexError | w # _ \<Rightarrow> Inr (PStr w))
      else Inr PNone)"

text \<open>
  The choice of the text field and its normalization to a list: a string becomes a
  one-element list, any other value that is not a list becomes the empty list.
\<close>

definition summary_raw_lines :: "pydict \<Rightarrow> ustr \<Rightarrow> pyval list" where
  "summary_raw_lines text_data lang =
     (let raw_lines = (if lang = ascii ''he'' then dict_get_default text_data ''he'' (PList [])
                       else dict_get_default text_data ''text'' (PList []))
      in case raw_lines of
           PStr s \<Rightarrow> [PStr s]
         | PList xs \<Rightarrow> xs
         | _ \<Rightarrow> [])"

text \<open>
  \<^verbatim>\<open>[clean_he_string(line) for line in raw_lines if line]\<close>: a line that is true and not a
  string makes \<^verbatim>\<open>html.unescape\<close> or \<^verbatim>\<open>TAG_RE.sub\<close> raise TypeError.
\<close>

fun clean_lines :: "(ustr \<rightharpoonup> ustr) \<Rightarrow> pyval list \<Rightarrow> py_error + ustr list" where
  "clean_lines html5 [] = Inr []"
| "clean_lines html5 (line # rest) =
     (if \<not> truthy line then clean_lines html5 rest
      else (case line of
              PStr s \<Rightarrow>
                (case clean_lines html5 rest of
                   Inl e \<Rightarrow> Inl e
                 | Inr cleaned \<Rightarrow> Inr (clean_he_string html5 s # cleaned))
            | _ \<Rightarrow> Inl TypeError))"

definition build_ref_summary ::
  "(ustr \<rightharpoonup> ustr) \<Rightarrow> gateway \<Rightarrow> ustr \<Rightarrow> ustr \<Rightarrow> int \<Rightarrow> pyval \<Rightarrow> int \<Rightarrow> py_error + pyval" where
  "build_ref_summary html5 gw ref lang context version max_links_per_category =
     (case get_text gw ref lang context version of
        Inl e \<Rightarrow> Inl e
      | Inr text_data \<Rightarrow>
     (case get_links gw ref of
        Inl e \<Rightarrow> Inl e
      | Inr links_data \<Rightarrow>
     (case get_ref_topics gw ref of
        Inl e \<Rightarrow> Inl e
      | Inr topics_raw \<Rightarrow>
     (case text_data of
        PDict td \<Rightarrow>
          (case summary_title td ref of
             Inl e \<Rightarrow> Inl e
           | Inr title \<Rightarrow>
          (let raw_lines = summary_raw_lines td lang in
           case clean_lines html5 raw_lines of
             Inl e \<Rightarrow> Inl e
           | Inr cleaned_lines \<Rightarrow>
          (case build_related_by_category links_data (dict_get_default td ''ref'' (PStr ref))
                  max_links_per_category of
             Inl e \<Rightarrow> Inl e
           | Inr related_by_cat \<Rightarrow>
          (let topic_ids = extract_topic_slugs topics_raw in
           case extract_topic_objects topics_raw of
             Inl e \<Rightarrow> Inl e
           | Inr topic_objs \<Rightarrow>
               Inr (PDict
                 [(key ''ref'', dict_get_default td ''ref'' (PStr ref)),
                  (key ''title'', title),
                  (key ''heTitle'', dict_get td ''heTitle''),
                  (key ''sectionNames'', dict_get td ''sectionNames''),
                  (key ''sections'', dict_get td ''sections''),
                  (key ''versionTitle'', dict_get td ''versionTitle''),
                  (key ''heVersionTitle'', dict_get td ''heVersionTitle''),
                  (key ''next'', dict_get td ''next''),
                  (key ''prev'', dict_get td ''prev''),
                  (key ''text'',
                   PDict [(key ''lang'', PStr lang),
                          (key ''raw'', PList raw_lines),
                          (key ''cleaned'', PList (map PStr cleaned_lines))]),
                  (key ''relatedSourcesByCategory'', PDict related_by_cat),
                  (key ''topics'',
                   PDict [(key ''ids'', PList (map PStr topic_ids)),
                          (key ''objects'', PList topic_objs)])])))))
      | _ \<Rightarrow> Inl AttributeError))))"

section \<open>The Hebrew text of \<^verbatim>\<open>test_texts_api\<close> (3-get-texts/neat_text_fetch.py)\<close>

text \<open>
  The value \<^verbatim>\<open>raw_hebrew\<close> computed from \<^verbatim>\<open>data.get("he", [])\<close>: a non-empty value whose
  elements are all one-character strings is joined without separator, another list is
  joined with spaces (its elements must be strings), a string is taken as it is, and any
  other value gives the empty string.
\<close>

definition is_char :: "pyval \<Rightarrow> bool" where
  "is_char ch = (case ch of PStr s \<Rightarrow> length s = 1 | _ \<Rightarrow> False)"

fun str_items :: "pyval list \<Rightarrow> py_error + ustr list" where
  "str_items [] = Inr []"
| "str_items (x # xs) =
     (case x of
        PStr s \<Rightarrow> (case str_items xs of Inl e \<Rightarrow> Inl e | Inr ss \<Rightarrow> Inr (s # ss))
      | _ \<Rightarrow> Inl TypeError)"

definition raw_hebrew :: "pyval \<Rightarrow> py_error + ustr" where
  "raw_hebrew he_raw_list =
     (case (if truthy he_raw_list
            then (case py_iter he_raw_list of
                    Inl e \<Rightarrow> Inl e
                  | Inr items \<Rightarrow> Inr (list_all is_char items))
            else Inr False) of
        Inl e \<Rightarrow> Inl e
      | Inr True \<Rightarrow>
          (case py_iter he_raw_list of
             Inl e \<Rightarrow> Inl e
           | Inr items \<Rightarrow>
               (case str_items items of Inl e \<Rightarrow> Inl e | Inr ss \<Rightarrow> Inr (str_join [] ss)))
      | Inr False \<Rightarrow>
          (case he_raw_list of
             PList xs \<Rightarrow>
               (case str_items xs of
                  Inl e \<Rightarrow> Inl e
                | Inr ss \<Rightarrow> Inr (str_join (ascii '' '') ss))
           | PStr s \<Rightarrow> Inr s
           | _ \<Rightarrow> Inr []))"

section \<open>The bundle of a reference (main.py)\<close>

text \<open>
  \<^verbatim>\<open>await client.get(path)\<close> of httpx raises a subclass of \<^verbatim>\<open>httpx.HTTPError\<close> on a transport
  failure or a timeout; otherwise the response has a status code and \<^verbatim>\<open>.json()\<close> decodes
  its body or raises a decoding error, which is not an \<^verbatim>\<open>httpx.HTTPError\<close>.
\<close>

definition response_json :: "endpoint \<Rightarrow> pyval option \<Rightarrow> py_error + pyval" where
  "response_json ep body = (case body of None \<Rightarrow> Inl (JSONDecodeError ep) | Some v \<Rightarrow> Inr v)"

text \<open>
  An optional helper call of \<^verbatim>\<open>get_ref_info\<close>:
  \<^verbatim>\<open>try: r = await client.get(path); x = r.json() if r.status_code == 200 else default\<close>
  \<^verbatim>\<open>except httpx.HTTPError: x = default\<close>.
\<close>

definition optional_json :: "gateway \<Rightarrow> endpoint \<Rightarrow> ustr \<Rightarrow> pyval \<Rightarrow> py_error + pyval" where
  "optional_json gw ep ref dflt =
     (case gw ep ref of
        Transport_failure \<Rightarrow> Inr dflt
      | Reply status body \<Rightarrow> if status = 200 then response_json ep body else Inr dflt)"

text \<open>
  The fallback to the legacy endpoint, entered when both \<^verbatim>\<open>he\<close> and \<^verbatim>\<open>en\<close> are empty: a
  transport failure is ignored, a decoding error and an AttributeError are not caught.
\<close>

definition legacy_fallback :: "gateway \<Rightarrow> ustr \<Rightarrow> pydict \<Rightarrow> py_error + pydict" where
  "legacy_fallback gw ref texts =
     (case gw Texts ref of
        Transport_failure \<Rightarrow> Inr texts
      | Reply status body \<Rightarrow>
          if status = 200 then
            (case response_json Texts body of
               Inl e \<Rightarrow> Inl e
             | Inr j \<Rightarrow>
                 (case py_or j (PDict []) of
                    PDict legacy \<Rightarrow>
                      (let he_legacy = dict_get legacy ''he'';
                           en_legacy = py_or (dict_get legacy ''text'') (dict_get legacy ''en'')
                       in if truthy he_legacy \<or> truthy en_legacy
                          then Inr (dict_set (dict_set texts (key ''he'') he_legacy)
                                             (key ''en'') en_legacy)
                          else Inr texts)
                  | _ \<Rightarrow> Inl AttributeError))
          else Inr texts)"

text \<open>The required part of \<^verbatim>\<open>get_ref_info\<close>: the texts, with the fallback.\<close>

definition ref_info_texts :: "gateway \<Rightarrow> ustr \<Rightarrow> py_error + pydict" where
  "ref_info_texts gw ref =
     (case gw TextsV3 ref of
        Transport_failure \<Rightarrow> Inl (TransportError TextsV3)
      | Reply status body \<Rightarrow>
          if status \<noteq> 200 then Inl (HTTPException status TextsV3)
          else
            (case response_json TextsV3 body of
               Inl e \<Rightarrow> Inl e
             | Inr j \<Rightarrow>
                 (case py_or j (PDict []) of
                    PDict texts \<Rightarrow>
                      (let he = dict_get texts ''he'';
                           en = py_or (dict_get texts ''en'') (dict_get texts ''text'')
                       in if \<not> truthy he \<and> \<not> truthy en then legacy_fallback gw ref texts
                          else Inr texts)
                  | _ \<Rightarrow> Inl AttributeError)))"

definition get_ref_info :: "gateway \<Rightarrow> ustr \<Rightarrow> py_error + pyval" where
  "get_ref_info gw ref =
     (case ref_info_texts gw ref of
        Inl e \<Rightarrow> Inl e
      | Inr texts \<Rightarrow>
     (case optional_json gw Links ref (PList []) of
        Inl e \<Rightarrow> Inl e
      | Inr links \<Rightarrow>
     (case optional_json gw RefTopicLinks ref (PList []) of
        Inl e \<Rightarrow> Inl e
      | Inr topics \<Rightarrow>
     (case optional_json gw Related ref (PDict []) of
        Inl e \<Rightarrow> Inl e
      | Inr related \<Rightarrow>
          Inr (PDict [(key ''ref'', PStr ref),
                      (key ''texts'', PDict texts),
                      (key ''links'', links),
                      (key ''topics'', topics),
                      (key ''related'', related)])))))"

section \<open>Notions used in the statements\<close>

text \<open>The id of a raw topic link, when the entry is a dict whose \<^verbatim>\<open>"topic"\<close> is a string.\<close>

definition topic_str :: "pyval \<Rightarrow> ustr option" where
  "topic_str item =
     (case item of
        PDict d \<Rightarrow> (case dict_get d ''topic'' of PStr t \<Rightarrow> Some t | _ \<Rightarrow> None)
      | _ \<Rightarrow> None)"

text \<open>The shape of a compact topic object.\<close>

definition is_topic_object :: "pyval \<Rightarrow> bool" where
  "is_topic_object t =
     (\<exists>tid title src. t = PDict [(key ''id'', PStr tid), (key ''title'', title), (key ''source'', src)])"

text \<open>A string in which no \<^verbatim>\<open><\<close> has a \<^verbatim>\<open>>\<close> after it: \<^verbatim>\<open>TAG_RE\<close> matches nowhere.\<close>

fun no_tag :: "ustr \<Rightarrow> bool" where
  "no_tag [] = True"
| "no_tag (c # cs) = ((c \<noteq> 60 \<or> 62 \<notin> set cs) \<and> no_tag cs)"

definition is_angle :: "nat \<Rightarrow> bool" where
  "is_angle c = (c = 60 \<or> c = 62)"

text \<open>A list of non-empty words without whitespace, as \<^verbatim>\<open>str.split\<close> returns.\<close>

definition wordy :: "ustr list \<Rightarrow> bool" where
  "wordy ws = (\<forall>w \<in> set ws. w \<noteq> [] \<and> (\<forall>c \<in> set w. \<not> is_space c))"

section \<open>Notions used in the statements about the library tree\<close>

text \<open>
  The children of a raw index node: the list under \<^verbatim>\<open>"contents"\<close>, empty when the field is
  absent or empty.
\<close>

definition raw_children :: "pydict \<Rightarrow> pyval list" where
  "raw_children d = (case children_raw d of PList cs \<Rightarrow> cs | _ \<Rightarrow> [])"

text \<open>
  A well-formed raw index node has one of the shapes that the docstring of
  \<^verbatim>\<open>_normalize_node\<close> describes: a category node (a dict with \<^verbatim>\<open>"category"\<close>, without \<^verbatim>\<open>"title"\<close>,
  whose contents are a list of well-formed nodes), a book node (a dict with \<^verbatim>\<open>"title"\<close> and
  without children), or a dict with neither field, whatever lies below it.
\<close>

function wf_node :: "pyval \<Rightarrow> bool" where
  "wf_node raw =
     (case raw of
        PDict d \<Rightarrow>
          if has_key d ''category'' then
            \<not> has_key d ''title''
            \<and> (case children_raw d of PList cs \<Rightarrow> list_all wf_node cs | _ \<Rightarrow> False)
          else if has_key d ''title'' then raw_children d = []
          else True
      | _ \<Rightarrow> False)"
  by pat_completeness auto
termination
proof (relation "measure size", goal_cases)
  have m: "map_of d k = Some v \<Longrightarrow> size v < size (PDict d)" for d :: pydict and k v
    by (induction d) (auto split: if_splits)
  have c: "children_raw d = v \<Longrightarrow> v = PList [] \<or> size v < size (PDict d)" for d v
    by (auto simp: children_raw_def py_or_def dict_get_default_def
             split: option.splits if_splits dest: m)
  have s: "x \<in> set cs \<Longrightarrow> size x < size (PList cs)" for x :: pyval and cs
    by (induction cs) auto
  {
    case 1
    show ?case by simp
  next
    case (2 raw d cs x)
    then show ?case using c [of d "PList cs"] s [of x cs] by auto
  }
qed

text \<open>
  The title-bearing leaves of a raw node in depth-first pre-order, each with the category
  titles of its ancestors: a leaf is a dict with a \<^verbatim>\<open>"title"\<close> and no children, and nothing
  is taken from below a node that has neither a \<^verbatim>\<open>"category"\<close> nor a \<^verbatim>\<open>"title"\<close>.
\<close>

function title_leaves :: "pyval \<Rightarrow> pyval list \<Rightarrow> (pydict \<times> pyval list) list" where
  "title_leaves raw parent_path =
     (case raw of
        PDict d \<Rightarrow>
          if \<not> has_key d ''category'' \<and> \<not> has_key d ''title'' then []
          else (if has_key d ''title'' \<and> raw_children d = [] then [(d, parent_path)] else [])
               @ concat (map (\<lambda>c. title_leaves c (parent_path @ [dict_get d ''category'']))
                             (raw_children d))
      | _ \<Rightarrow> [])"
  by pat_completeness auto
termination
proof (relation "measure (\<lambda>(raw, p). size raw)", goal_cases)
  have m: "map_of d k = Some v \<Longrightarrow> size v < size (PDict d)" for d :: pydict and k v
    by (induction d) (auto split: if_splits)
  have c: "children_raw d = v \<Longrightarrow> v = PList [] \<or> size v < size (PDict d)" for d v
    by (auto simp: children_raw_def py_or_def dict_get_default_def
             split: option.splits if_splits dest: m)
  have s: "x \<in> set cs \<Longrightarrow> size x < size (PList cs)" for x :: pyval and cs
    by (induction cs) auto
  have r: "size x < size (PDict d)" if "x \<in> set (raw_children d)" for x d
  proof -
    from that obtain cs where cs: "children_raw d = PList cs" "x \<in> set cs"
      by (cases "children_raw d") (auto simp: raw_children_def)
    then have "PList cs \<noteq> PList []" by auto
    with c [OF cs(1)] have "size (PList cs) < size (PDict d)" by blast
    with s [OF cs(2)] show ?thesis by (rule less_trans)
  qed
  {
    case 1
    show ?case by simp
  next
    case (2 raw parent_path d x)
    then show ?case using r [of x d] by auto
  }
qed

text \<open>
  The flat record of a leaf: its title, its Hebrew title, and as path its own non-empty
  category list, or else the ancestors' titles followed by its own title.
\<close>

definition leaf_record :: "pydict \<times> pyval list \<Rightarrow> pydict" where
  "leaf_record leaf =
     (case leaf of (d, parent_path) \<Rightarrow>
        [(key ''title'', dict_get d ''title''),
         (key ''heTitle'', dict_get d ''heTitle''),
         (key ''path'', PList (case dict_get d ''categories'' of
                                PList cs \<Rightarrow> if cs \<noteq> [] then cs else parent_path @ [dict_get d ''title'']
                              | _ \<Rightarrow> parent_path @ [dict_get d ''title'']))])"

definition opt_list :: "'a option \<Rightarrow> 'a list" where
  "opt_list r = (case r of None \<Rightarrow> [] | Some x \<Rightarrow> [x])"

text \<open>The keys under which \<^verbatim>\<open>build_book_lookup\<close> and \<^verbatim>\<open>build_title_lookup\<close> store a record.\<close>

definition book_keys :: "(ustr \<Rightarrow> ustr) \<Rightarrow> pydict \<Rightarrow> ustr list" where
  "book_keys lower b =
     (case dict_get b ''title'' of PStr t \<Rightarrow> [lower t] | _ \<Rightarrow> [])
     @ (case dict_get b ''heTitle'' of PStr h \<Rightarrow> [h] | _ \<Rightarrow> [])"

definition title_keys :: "pydict \<Rightarrow> pyval list" where
  "title_keys b =
     (if truthy (dict_get b ''title'') then [dict_get b ''title''] else [])
     @ (if truthy (dict_get b ''heTitle'') then [dict_get b ''heTitle''] else [])"

text \<open>Two records whose titles differ in case only.\<close>

definition genesis_lower :: pydict where
  "genesis_lower = [(key ''title'', PStr (ascii ''Genesis'')), (key ''heTitle'', PNone), (key ''categories'', PList [])]"

definition genesis_upper :: pydict where
  "genesis_upper = [(key ''title'', PStr (ascii ''GENESIS'')), (key ''heTitle'', PNone), (key ''categories'', PList [])]"

text \<open>The index payload of the end-to-end scenario, with the Hebrew title of Genesis.\<close>

definition bereshit :: ustr where
  "bereshit = [0x5D1, 0x5E8, 0x5D0, 0x5E9, 0x5D9, 0x5EA]"

definition tanakh_payload :: pyval where
  "tanakh_payload =
     PList [PDict [(key ''category'', PStr (ascii ''Tanakh'')),
                   (key ''contents'',
                    PList [PDict [(key ''title'', PStr (ascii ''Genesis'')),
                                  (key ''heTitle'', PStr bereshit)]])]]"

text \<open>The record that \<^verbatim>\<open>flatten_library_tree\<close> builds for it.\<close>

definition genesis_record :: pydict where
  "genesis_record =
     [(key ''title'', PStr (ascii ''Genesis'')),
      (key ''heTitle'', PStr bereshit),
      (key ''categories'', PList [PStr (ascii ''Tanakh'')])]"

text \<open>The record that \<^verbatim>\<open>build_flat_book_list\<close> builds for it.\<close>

definition genesis_path_record :: pydict where
  "genesis_path_record =
     [(key ''title'', PStr (ascii ''Genesis'')),
      (key ''heTitle'', PStr bereshit),
      (key ''path'', PList [PStr (ascii ''Tanakh''), PStr (ascii ''Genesis'')])]"

text \<open>A raw book record with an explicit category list.\<close>

definition genesis_raw :: pydict where
  "genesis_raw =
     [(key ''title'', PStr (ascii ''Genesis'')),
      (key ''heTitle'', PStr bereshit),
      (key ''categories'', PList [PStr (ascii ''Tanakh''), PStr (ascii ''Torah'')])]"

text \<open>
  A payload with two books and, between them, a node with neither field that hides a
  titled node and a number.
\<close>

definition mixed_payload :: "pyval list" where
  "mixed_payload =
     [PDict [(key ''category'', PStr (ascii ''Tanakh'')),
             (key ''contents'',
              PList [PDict [(key ''title'', PStr (ascii ''Genesis'')), (key ''heTitle'', PStr bereshit)],
                     PDict [(key ''name'', PStr (ascii ''stray'')),
                            (key ''contents'', PList [PDict [(key ''title'', PStr (ascii ''Hidden''))], PInt 7])],
                     PDict [(key ''title'', PStr (ascii ''Exodus''))]])]]"

definition both_fields :: pydict where
  "both_fields = [(key ''category'', PStr (ascii ''X'')), (key ''title'', PStr (ascii ''Y''))]"

section \<open>Notions used in the statements about the aggregators\<close>

text \<open>The exceptions that the helpers raise on a malformed payload.\<close>

definition local_error :: "py_error \<Rightarrow> bool" where
  "local_error e = (e = TypeError \<or> e = AttributeError \<or> e = IndexError \<or> e = KeyError)"

text \<open>
  A structurally complete summary: a dict with exactly the twelve keys of the summary, whose
  \<^verbatim>\<open>text\<close> has the language, a list of raw lines and a list of cleaned strings, whose
  \<^verbatim>\<open>relatedSourcesByCategory\<close> is a dict, and whose \<^verbatim>\<open>topics\<close> has a list of id strings and a
  list of compact topic objects.
\<close>

definition is_str_list :: "pyval \<Rightarrow> bool" where
  "is_str_list v = (case v of PList xs \<Rightarrow> list_all (\<lambda>x. case x of PStr _ \<Rightarrow> True | _ \<Rightarrow> False) xs | _ \<Rightarrow> False)"

definition is_list :: "pyval \<Rightarrow> bool" where
  "is_list v = (case v of PList _ \<Rightarrow> True | _ \<Rightarrow> False)"

definition is_dict :: "pyval \<Rightarrow> bool" where
  "is_dict v = (case v of PDict _ \<Rightarrow> True | _ \<Rightarrow> False)"

definition complete_summary :: "pyval \<Rightarrow> bool" where
  "complete_summary s =
     (case s of
        PDict d \<Rightarrow>
          map fst d = map key [''ref'', ''title'', ''heTitle'', ''sectionNames'', ''sections'',
                               ''versionTitle'', ''heVersionTitle'', ''next'', ''prev'', ''text'',
                               ''relatedSourcesByCategory'', ''topics'']
          \<and> (case dict_get d ''text'' of
                PDict t \<Rightarrow>
                  map fst t = map key [''lang'', ''raw'', ''cleaned'']
                  \<and> is_list (dict_get t ''raw'') \<and> is_str_list (dict_get t ''cleaned'')
              | _ \<Rightarrow> False)
          \<and> is_dict (dict_get d ''relatedSourcesByCategory'')
          \<and> (case dict_get d ''topics'' of
                PDict t \<Rightarrow>
                  map fst t = map key [''ids'', ''objects'']
                  \<and> is_str_list (dict_get t ''ids'')
                  \<and> (case dict_get t ''objects'' of
                        PList objs \<Rightarrow> list_all is_topic_object objs
                      | _ \<Rightarrow> False)
              | _ \<Rightarrow> False)
      | _ \<Rightarrow> False)"

text \<open>
  A failed optional call of \<^verbatim>\<open>get_ref_info\<close>: a transport failure (network error, timeout) or
  a status other than 200.
\<close>

definition reply_failed :: "reply \<Rightarrow> bool" where
  "reply_failed r = (case r of Transport_failure \<Rightarrow> True | Reply status _ \<Rightarrow> status \<noteq> 200)"

text \<open>A field of a returned summary.\<close>

definition summary_field :: "pyval \<Rightarrow> string \<Rightarrow> pyval" where
  "summary_field s k = (case s of PDict d \<Rightarrow> dict_get d k | _ \<Rightarrow> PNone)"

text \<open>
  The end-to-end scenario of the reference \<^verbatim>\<open>Genesis 1:1\<close>: the text, two links and two
  topics, a gateway that answers every call, and gateways where calls fail.
\<close>

definition genesis_1_1 :: ustr where
  "genesis_1_1 = ascii ''Genesis 1:1''"

definition genesis_fields :: pydict where
  "genesis_fields =
     [(key ''ref'', PStr genesis_1_1),
      (key ''heTitle'', PStr bereshit),
      (key ''he'', PList [PStr (ascii ''<b>'' @ bereshit @ ascii ''</b>'')])]"

definition genesis_text :: pyval where
  "genesis_text = PDict genesis_fields"

definition genesis_links :: pyval where
  "genesis_links =
     PList [PDict [(key ''category'', PStr (ascii ''Commentary'')),
                   (key ''type'', PStr (ascii ''commentary'')),
                   (key ''refs'', PList [PStr (ascii ''Rashi on Genesis 1:1:1''), PStr genesis_1_1])],
            PDict [(key ''category'', PStr (ascii ''Midrash'')),
                   (key ''sourceRef'', PStr (ascii ''Bereshit Rabbah 1:1''))]]"

definition genesis_topics :: pyval where
  "genesis_topics = PList [topic_link ''creation'', topic_link ''ai'']"

definition gw_all_up :: gateway where
  "gw_all_up ep path =
     (case ep of
        Texts \<Rightarrow> Reply 200 (Some genesis_text)
      | TextsV3 \<Rightarrow> Reply 200 (Some genesis_text)
      | Links \<Rightarrow> Reply 200 (Some genesis_links)
      | RefTopicLinks \<Rightarrow> Reply 200 (Some genesis_topics)
      | Related \<Rightarrow> Reply 200 (Some (PDict [])))"

definition gw_links_down :: gateway where
  "gw_links_down = gw_all_up(Links := \<lambda>path. Reply 503 None)"

definition gw_topics_down :: gateway where
  "gw_topics_down = gw_all_up(RefTopicLinks := \<lambda>path. Transport_failure)"

definition gw_optional_down :: gateway where
  "gw_optional_down =
     gw_all_up(Links := \<lambda>path. Transport_failure,
               RefTopicLinks := \<lambda>path. Reply 500 None,
               Related := \<lambda>path. Reply 404 (Some (PDict [(key ''error'', PStr (ascii ''not found''))])))"

text \<open>The summary of the scenario.\<close>

definition genesis_summary :: pyval where
  "genesis_summary =
     PDict [(key ''ref'', PStr genesis_1_1),
            (key ''title'', PStr (ascii ''Genesis'')),
            (key ''heTitle'', PStr bereshit),
            (key ''sectionNames'', PNone),
            (key ''sections'', PNone),
            (key ''versionTitle'', PNone),
            (key ''heVersionTitle'', PNone),
            (key ''next'', PNone),
            (key ''prev'', PNone),
            (key ''text'',
             PDict [(key ''lang'', PStr (ascii ''he'')),
                    (key ''raw'', PList [PStr (ascii ''<b>'' @ bereshit @ ascii ''</b>'')]),
                    (key ''cleaned'', PList [PStr bereshit])]),
            (key ''relatedSourcesByCategory'',
             PDict [(PStr (ascii ''Commentary''),
                     PList [PDict [(key ''category'', PStr (ascii ''Commentary'')),
                                   (key ''type'', PStr (ascii ''commentary'')),
                                   (key ''sourceRef'', PStr (ascii ''Rashi on Genesis 1:1:1'')),
                                   (key ''anchorRef'', PStr genesis_1_1)]]),
                    (PStr (ascii ''Midrash''),
                     PList [PDict [(key ''category'', PStr (ascii ''Midrash'')),
                                   (key ''type'', PStr []),
                                   (key ''sourceRef'', PStr (ascii ''Bereshit Rabbah 1:1'')),
                                   (key ''anchorRef'', PStr genesis_1_1)]])]),
            (key ''topics'',
             PDict [(key ''ids'', PList [PStr (ascii ''creation'')]),
                    (key ''objects'',
                     PList [PDict [(key ''id'', PStr (ascii ''creation'')),
                                   (key ''title'', PNone),
                                   (key ''source'', PNone)]])])]"

definition gw_text_down :: gateway where
  "gw_text_down = gw_all_up(Texts := \<lambda>path. Reply 404 None)"

text \<open>A Hebrew text that arrives as a list of single characters.\<close>

definition bet_resh :: "pyval list" where
  "bet_resh = [PStr [0x5D1], PStr [0x5E8]]"

definition gw_characters :: gateway where
  "gw_characters = gw_all_up(Texts := \<lambda>path. Reply 200 (Some (PDict [(key ''he'', PList bet_resh)])))"

text \<open>The cleaned lines of a returned summary.\<close>

definition text_cleaned :: "py_error + pyval \<Rightarrow> py_error + pyval" where
  "text_cleaned r = map_sum id (\<lambda>s. summary_field (summary_field s ''text'') ''cleaned'') r"

text \<open>The text field that \<^verbatim>\<open>build_ref_summary\<close> reads for a language.\<close>

definition text_field :: "pydict \<Rightarrow> ustr \<Rightarrow> pyval" where
  "text_field text_data lang =
     (if lang = ascii ''he'' then dict_get_default text_data ''he'' (PList [])
      else dict_get_default text_data ''text'' (PList []))"

section \<open>Properties of the topic simplifiers\<close>


lemma collect_slugs_filter:
  "collect_slugs items = filter (\<lambda>t. t \<notin> BLACKLISTED_TOPIC_IDS) (List.map_filter topic_str items)"
  by (induction items) (auto simp: topic_str_def List.map_filter_simps split: pyval.splits)

lemma remdups_snoc:
  "remdups (zs @ [x]) = remdups (filter (\<lambda>y. y \<noteq> x) zs) @ [x]"
  by (induction zs) auto

lemma first_seen_Cons:
  "rev (remdups (rev (x # ys))) = x # rev (remdups (rev (filter (\<lambda>y. y \<noteq> x) ys)))"
  by (simp add: remdups_snoc rev_filter)

lemma dedupe_first_seen:
  "dedupe seen xs = rev (remdups (rev (filter (\<lambda>x. x \<notin> seen) xs)))"
proof (induction xs arbitrary: seen)
  case Nil
  show ?case by simp
next
  case (Cons x xs)
  show ?case
  proof (cases "x \<in> seen")
    case True
    then show ?thesis using Cons.IH [of seen] by simp
  next
    case False
    have "filter (\<lambda>y. y \<notin> insert x seen) xs = filter (\<lambda>y. y \<noteq> x) (filter (\<lambda>y. y \<notin> seen) xs)"
      by (induction xs) auto
    then show ?thesis
      using False Cons.IH [of "insert x seen"] first_seen_Cons [of x "filter (\<lambda>y. y \<notin> seen) xs"]
      by simp
  qed
qed

text \<open>
  Claim C6. Topic id extraction skips the entries that are not dicts and the ids that are
  not strings, drops the ids of the exclusion set, and then keeps the first occurrence of
  each remaining id, in the order of first occurrence; it returns the empty list for a
  response that is not a list. For the raw ids a, b, a, ai, c the result is a, b, c.
\<close>

theorem extract_topic_slugs_first_seen:
  "extract_topic_slugs (PList items) =
     rev (remdups (rev (filter (\<lambda>t. t \<notin> BLACKLISTED_TOPIC_IDS) (List.map_filter topic_str items))))
   \<and> distinct (extract_topic_slugs raw)
   \<and> extract_topic_slugs (PList [topic_link ''a'', topic_link ''b'', topic_link ''a'',
                                topic_link ''ai'', topic_link ''c''])
       = [ascii ''a'', ascii ''b'', ascii ''c'']
   \<and> extract_topic_slugs (PList [PInt 3, topic_link ''a'', PDict [(key ''topic'', PInt 7)],
                                PStr (ascii ''b''), topic_link ''a''])
       = [ascii ''a'']
   \<and> extract_topic_slugs PNone = []"
proof -
  have "extract_topic_slugs (PList items) =
     rev (remdups (rev (filter (\<lambda>t. t \<notin> BLACKLISTED_TOPIC_IDS) (List.map_filter topic_str items))))"
    by (simp add: extract_topic_slugs_def dedupe_first_seen collect_slugs_filter)
  moreover have "distinct (extract_topic_slugs raw)"
    by (cases raw) (simp_all add: extract_topic_slugs_def dedupe_first_seen)
  moreover have "extract_topic_slugs (PList [topic_link ''a'', topic_link ''b'', topic_link ''a'',
                                topic_link ''ai'', topic_link ''c''])
       = [ascii ''a'', ascii ''b'', ascii ''c'']"
    by (simp add: extract_topic_slugs_def topic_link_def key_def dict_get_def dict_get_default_def
        ascii_def BLACKLISTED_TOPIC_IDS_def)
  moreover have "extract_topic_slugs (PList [PInt 3, topic_link ''a'', PDict [(key ''topic'', PInt 7)],
                                PStr (ascii ''b''), topic_link ''a''])
       = [ascii ''a'']"
    by (simp add: extract_topic_slugs_def topic_link_def key_def dict_get_def dict_get_default_def
        ascii_def BLACKLISTED_TOPIC_IDS_def)
  moreover have "extract_topic_slugs PNone = []"
    by (simp add: extract_topic_slugs_def)
  ultimately show ?thesis by blast
qed

lemma collect_slugs_strings: "collect_slugs (map PStr ss) = []"
  by (induction ss) auto

lemma topic_object_shape:
  "topic_object d tid = Inr obj \<Longrightarrow> is_topic_object obj"
  unfolding topic_object_def is_topic_object_def Let_def
  by (auto split: sum.splits if_splits)

lemma collect_topics_shape:
  "collect_topics items = Inr objs \<Longrightarrow> \<forall>t \<in> set objs. is_topic_object t"
proof (induction items arbitrary: objs)
  case Nil
  then show ?case by simp
next
  case (Cons item rest)
  then show ?case
    by (auto split: pyval.splits if_splits sum.splits dest: topic_object_shape)
qed

lemma dedupe_by_id_subset: "set (dedupe_by_id seen ts) \<subseteq> set ts"
  by (induction ts arbitrary: seen) auto

lemma topic_object_no_topic:
  "is_topic_object t \<Longrightarrow> \<exists>d. t = PDict d \<and> dict_get d ''topic'' = PNone"
  by (auto simp: is_topic_object_def dict_get_def dict_get_default_def key_def ascii_def)

lemma collect_topics_objects:
  "\<forall>t \<in> set ts. is_topic_object t \<Longrightarrow> collect_topics ts = Inr []"
proof (induction ts)
  case Nil
  show ?case by simp
next
  case (Cons t ts)
  from Cons.prems obtain d where "t = PDict d" "dict_get d ''topic'' = PNone"
    using topic_object_no_topic [of t] by auto
  with Cons show ?case by simp
qed

lemma dedupe_fixed:
  "distinct xs \<Longrightarrow> set xs \<inter> seen = {} \<Longrightarrow> dedupe seen xs = xs"
  by (induction xs arbitrary: seen) auto

lemma dedupe_distinct:
  "distinct (dedupe seen xs) \<and> set (dedupe seen xs) \<inter> seen = {} \<and> set (dedupe seen xs) \<subseteq> set xs"
proof (induction xs arbitrary: seen)
  case Nil
  show ?case by simp
next
  case (Cons x xs)
  show ?case
  proof (cases "x \<in> seen")
    case True
    then show ?thesis using Cons [of seen] by auto
  next
    case False
    then show ?thesis using Cons [of "insert x seen"] by auto
  qed
qed

lemma dedupe_by_id_fixed:
  "distinct (map topic_tid ts) \<Longrightarrow> topic_tid ` set ts \<inter> seen = {} \<Longrightarrow> dedupe_by_id seen ts = ts"
  by (induction ts arbitrary: seen) auto

lemma dedupe_by_id_distinct:
  "distinct (map topic_tid (dedupe_by_id seen ts)) \<and> topic_tid ` set (dedupe_by_id seen ts) \<inter> seen = {}"
proof (induction ts arbitrary: seen)
  case Nil
  show ?case by simp
next
  case (Cons t ts)
  show ?case
  proof (cases "topic_tid t \<in> seen")
    case True
    then show ?thesis using Cons [of seen] by auto
  next
    case False
    then show ?thesis using Cons [of "insert (topic_tid t) seen"] by auto
  qed
qed

text \<open>
  Claim C5, as amended. The output of each extraction function has no duplicate id and its
  de-duplication pass leaves it unchanged; applying the whole function to its own output
  gives the empty list, because the output entries (id strings, or objects with the keys
  id, title and source) are not raw topic links with a \<^verbatim>\<open>"topic"\<close> field.
\<close>

theorem extract_topics_reapplied:
  "extract_topic_slugs (PList (map PStr (extract_topic_slugs raw))) = []
   \<and> dedupe {} (extract_topic_slugs raw) = extract_topic_slugs raw
   \<and> distinct (extract_topic_slugs raw)
   \<and> (\<forall>objs. extract_topic_objects raw = Inr objs \<longrightarrow>
         extract_topic_objects (PList objs) = Inr []
         \<and> dedupe_by_id {} objs = objs
         \<and> distinct (map topic_tid objs))"
proof -
  have a: "extract_topic_slugs (PList (map PStr (extract_topic_slugs raw))) = []"
    by (simp add: extract_topic_slugs_def collect_slugs_strings)
  have c: "distinct (extract_topic_slugs raw)"
    by (cases raw) (simp_all add: extract_topic_slugs_def dedupe_distinct)
  have b: "dedupe {} (extract_topic_slugs raw) = extract_topic_slugs raw"
    using c by (simp add: dedupe_fixed)
  have d: "extract_topic_objects (PList objs) = Inr [] \<and> dedupe_by_id {} objs = objs
           \<and> distinct (map topic_tid objs)"
    if h: "extract_topic_objects raw = Inr objs" for objs
  proof (cases raw)
    case (PList items)
    with h obtain topics where t: "collect_topics items = Inr topics"
      and o: "objs = dedupe_by_id {} topics"
      by (auto simp: extract_topic_objects_def split: sum.splits)
    have "\<forall>t \<in> set objs. is_topic_object t"
      using collect_topics_shape [OF t] dedupe_by_id_subset [of "{}" topics] o by auto
    then have "collect_topics objs = Inr []" by (rule collect_topics_objects)
    moreover have "distinct (map topic_tid objs)"
      using dedupe_by_id_distinct [of "{}" topics] o by simp
    ultimately show ?thesis
      by (simp add: extract_topic_objects_def dedupe_by_id_fixed)
  qed (use h in \<open>auto simp: extract_topic_objects_def\<close>)
  from a b c d show ?thesis by blast
qed

text \<open>The theorem at a response that names the topic \<^verbatim>\<open>creation\<close> twice.\<close>

theorem extract_topics_reapplied_witness:
  "extract_topic_objects (PList [topic_link ''creation'', topic_link ''creation''])
     = Inr [PDict [(key ''id'', PStr (ascii ''creation'')), (key ''title'', PNone), (key ''source'', PNone)]]
   \<and> extract_topic_objects
        (PList [PDict [(key ''id'', PStr (ascii ''creation'')), (key ''title'', PNone), (key ''source'', PNone)]])
     = Inr []
   \<and> extract_topic_slugs (PList [topic_link ''creation'', topic_link ''creation'']) = [ascii ''creation'']
   \<and> extract_topic_slugs (PList [PStr (ascii ''creation'')]) = []"
proof -
  have h: "extract_topic_objects (PList [topic_link ''creation'', topic_link ''creation''])
     = Inr [PDict [(key ''id'', PStr (ascii ''creation'')), (key ''title'', PNone), (key ''source'', PNone)]]"
    by (simp add: extract_topic_objects_def topic_link_def topic_object_def attr_get_def py_or_def
        dict_get_def dict_get_default_def key_def ascii_def BLACKLISTED_TOPIC_IDS_def topic_tid_def)
  have s: "extract_topic_slugs (PList [topic_link ''creation'', topic_link ''creation'']) = [ascii ''creation'']"
    by (simp add: extract_topic_slugs_def topic_link_def
        dict_get_def dict_get_default_def key_def ascii_def BLACKLISTED_TOPIC_IDS_def)
  show ?thesis
    using extract_topics_reapplied [of "PList [topic_link ''creation'', topic_link ''creation'']"] h s
    by simp
qed

text \<open>
  Claim C5 as stated fails: the ids extracted from \<^verbatim>\<open>[{"topic": "creation"}]\<close> are
  \<^verbatim>\<open>["creation"]\<close>, and extracting again from that list gives \<^verbatim>\<open>[]\<close>; the same holds for
  the topic objects.
\<close>

theorem extract_topics_not_idempotent:
  "extract_topic_slugs (PList (map PStr (extract_topic_slugs (PList [topic_link ''creation'']))))
     \<noteq> extract_topic_slugs (PList [topic_link ''creation''])
   \<and> extract_topic_objects (PList [topic_link ''creation''])
     = Inr [PDict [(key ''id'', PStr (ascii ''creation'')), (key ''title'', PNone), (key ''source'', PNone)]]
   \<and> extract_topic_objects
        (PList [PDict [(key ''id'', PStr (ascii ''creation'')), (key ''title'', PNone), (key ''source'', PNone)]])
     = Inr []"
  by (simp add: extract_topic_slugs_def extract_topic_objects_def topic_link_def topic_object_def
      attr_get_def py_or_def dict_get_def dict_get_default_def key_def ascii_def
      BLACKLISTED_TOPIC_IDS_def topic_tid_def)

section \<open>Properties of the line cleaner\<close>


lemma set_TAG_RE_sub: "set (TAG_RE_sub s) \<subseteq> set s"
proof (induction s rule: TAG_RE_sub.induct)
  case 1
  show ?case by simp
next
  case (2 c cs)
  show ?case
  proof (cases "c = 60 \<and> 62 \<in> set cs")
    case True
    have "set (tl (dropWhile (\<lambda>x. x \<noteq> 62) cs)) \<subseteq> set cs"
      by (metis list.set_sel(2) set_dropWhileD subsetI tl_Nil)
    with True 2 show ?thesis by auto
  next
    case False
    with 2 show ?thesis by auto
  qed
qed

lemma no_tag_TAG_RE_sub: "no_tag (TAG_RE_sub s)"
proof (induction s rule: TAG_RE_sub.induct)
  case 1
  show ?case by simp
next
  case (2 c cs)
  show ?case
  proof (cases "c = 60 \<and> 62 \<in> set cs")
    case True
    with 2 show ?thesis by simp
  next
    case False
    with 2 set_TAG_RE_sub [of cs] show ?thesis by auto
  qed
qed

lemma TAG_RE_sub_no_tag: "no_tag s \<Longrightarrow> TAG_RE_sub s = s"
  by (induction s) auto

lemma no_tag_filter: "no_tag (filter is_angle s) = no_tag s"
  by (induction s) (auto simp: is_angle_def)

lemma filter_angle_nbsp: "filter is_angle (replace_nbsp s) = filter is_angle s"
  by (induction s) (auto simp: replace_nbsp_def is_angle_def)

lemma concat_split_acc: "concat (split_acc w s) = w @ filter (\<lambda>c. \<not> is_space c) s"
  by (induction s arbitrary: w) auto

lemma filter_angle_join: "filter is_angle (str_join [32] ws) = filter is_angle (concat ws)"
  by (induction "[32::nat]" ws rule: str_join.induct) (auto simp: is_angle_def)

lemma angle_not_space: "is_angle c \<Longrightarrow> \<not> is_space c"
  by (auto simp: is_angle_def is_space_def)

lemma filter_angle_nonspace: "filter is_angle (filter (\<lambda>c. \<not> is_space c) s) = filter is_angle s"
proof -
  have "(\<lambda>x. \<not> is_space x \<and> is_angle x) = is_angle"
    using angle_not_space by auto
  then show ?thesis by simp
qed

lemma filter_angle_normalise:
  "filter is_angle (str_join [32] (str_split s)) = filter is_angle s"
proof -
  have "filter is_angle (str_join [32] (str_split s)) = filter is_angle (concat (str_split s))"
    by (rule filter_angle_join)
  also have "\<dots> = filter is_angle (filter (\<lambda>c. \<not> is_space c) s)"
    by (simp only: str_split_def concat_split_acc append_Nil)
  also have "\<dots> = filter is_angle s"
    by (rule filter_angle_nonspace)
  finally show ?thesis .
qed

lemma wordy_split_acc:
  "\<forall>c \<in> set w. \<not> is_space c \<Longrightarrow> wordy (split_acc w s)"
proof (induction s arbitrary: w)
  case Nil
  then show ?case by (simp add: wordy_def)
next
  case (Cons a s)
  show ?case
  proof (cases "is_space a")
    case True
    have "wordy (split_acc [] s)" by (rule Cons.IH) simp
    with True Cons.prems show ?thesis by (simp add: wordy_def)
  next
    case False
    have "wordy (split_acc (w @ [a]) s)" by (rule Cons.IH) (use False Cons.prems in auto)
    with False show ?thesis by simp
  qed
qed

lemma split_acc_word:
  "\<forall>c \<in> set u. \<not> is_space c \<Longrightarrow> split_acc w (u @ rest) = split_acc (w @ u) rest"
  by (induction u arbitrary: w) auto

lemma split_join:
  "wordy ws \<Longrightarrow> str_split (str_join [32] ws) = ws"
proof (induction "[32::nat]" ws rule: str_join.induct)
  case 1
  show ?case by (simp add: str_split_def)
next
  case (2 w)
  then show ?case
    using split_acc_word [of w "[]" "[]"] by (simp add: str_split_def wordy_def)
next
  case (3 w v vs)
  then have "wordy (v # vs)" by (simp add: wordy_def)
  with 3 have ih: "split_acc [] (str_join [32] (v # vs)) = v # vs" by (simp add: str_split_def)
  have w: "\<forall>c \<in> set w. \<not> is_space c" "w \<noteq> []" using 3 by (auto simp: wordy_def)
  have "split_acc [] (w @ 32 # str_join [32] (v # vs)) = split_acc w (32 # str_join [32] (v # vs))"
    using split_acc_word [OF w(1), of "[]"] by simp
  also have "\<dots> = w # v # vs" using w ih by (simp add: is_space_def)
  finally show ?case by (simp add: str_split_def)
qed

lemma set_join: "set (str_join [32] ws) \<subseteq> insert 32 (set (concat ws))"
  by (induction "[32::nat]" ws rule: str_join.induct) auto

lemma nbsp_free_join: "wordy ws \<Longrightarrow> replace_nbsp (str_join [32] ws) = str_join [32] ws"
proof -
  assume w: "wordy ws"
  have "160 \<notin> set (str_join [32] ws)"
  proof
    assume "160 \<in> set (str_join [32] ws)"
    with set_join [of ws] have "160 \<in> set (concat ws)" by auto
    with w show False by (auto simp: wordy_def is_space_def)
  qed
  then have "\<forall>c \<in> set (str_join [32] ws). c \<noteq> 160" by auto
  then show ?thesis unfolding replace_nbsp_def by (simp add: map_idI)
qed

lemma clean_again:
  assumes "html_unescape html5 (clean_he_string html5 s) = clean_he_string html5 s"
  shows "clean_he_string html5 (clean_he_string html5 s) = clean_he_string html5 s"
proof -
  define u where "u = TAG_RE_sub (html_unescape html5 s)"
  define ws where "ws = str_split (replace_nbsp u)"
  define t where "t = str_join [32] ws"
  have t: "clean_he_string html5 s = t"
    by (simp add: clean_he_string_def t_def ws_def u_def ascii_def)
  have w: "wordy ws" by (simp add: ws_def str_split_def wordy_split_acc)
  have "filter is_angle t = filter is_angle u"
    by (simp add: t_def ws_def filter_angle_normalise filter_angle_nbsp)
  moreover have "no_tag u" by (simp add: u_def no_tag_TAG_RE_sub)
  ultimately have "no_tag t" by (metis no_tag_filter)
  then have 1: "TAG_RE_sub t = t" by (rule TAG_RE_sub_no_tag)
  have 2: "replace_nbsp t = t" using w by (simp add: t_def nbsp_free_join)
  have 3: "str_join [32] (str_split t) = t" using w by (simp add: t_def split_join)
  have 0: "html_unescape html5 t = t" using assms by (simp only: t)
  have "clean_he_string html5 t =
          str_join [32] (str_split (replace_nbsp (TAG_RE_sub (html_unescape html5 t))))"
    by (simp add: clean_he_string_def ascii_def)
  also have "\<dots> = t" by (simp only: 0 1 2 3)
  finally show ?thesis by (simp only: t)
qed

text \<open>
  Claim C4, as amended. Cleaning is idempotent on every line whose cleaned form contains
  no ampersand: then the second pass decodes nothing, finds no tag, no non-breaking space
  and no whitespace run.
\<close>

theorem clean_he_string_idempotent_without_ampersand:
  "38 \<notin> set (clean_he_string html5 s) \<Longrightarrow>
     clean_he_string html5 (clean_he_string html5 s) = clean_he_string html5 s"
  by (rule clean_again) (simp add: html_unescape_def)

text \<open>The theorem at the line \<^verbatim>\<open><b>a&nbsp; b</b>\<close>, whose cleaned form is \<^verbatim>\<open>a b\<close>.\<close>

theorem clean_he_string_idempotent_witness:
  "38 \<notin> set (clean_he_string html5_excerpt (ascii ''<b>a&nbsp; b</b>''))
   \<and> clean_he_string html5_excerpt (ascii ''<b>a&nbsp; b</b>'') = ascii ''a b''
   \<and> clean_he_string html5_excerpt (clean_he_string html5_excerpt (ascii ''<b>a&nbsp; b</b>''))
       = clean_he_string html5_excerpt (ascii ''<b>a&nbsp; b</b>'')"
proof -
  have e: "clean_he_string html5_excerpt (ascii ''<b>a&nbsp; b</b>'') = ascii ''a b''"
    by (simp add: clean_he_string_def html_unescape_def match_charref_def replace_charref_def
        html5_excerpt_def ascii_def is_name_char_def opt_semicolon_def replace_nbsp_def
        str_split_def is_space_def)
  have h: "38 \<notin> set (clean_he_string html5_excerpt (ascii ''<b>a&nbsp; b</b>''))"
    by (simp add: e) (simp add: ascii_def)
  show ?thesis
    using clean_he_string_idempotent_without_ampersand [OF h] h e by simp
qed

text \<open>
  Claim C4 as stated fails: the line \<^verbatim>\<open>&amp;lt;\<close> is cleaned to \<^verbatim>\<open>&lt;\<close>, and cleaning that
  again decodes it to \<^verbatim>\<open><\<close>.
\<close>

theorem clean_he_string_not_idempotent:
  "clean_he_string html5_excerpt (clean_he_string html5_excerpt (ascii ''&amp;lt;''))
     \<noteq> clean_he_string html5_excerpt (ascii ''&amp;lt;'')"
  by (simp add: clean_he_string_def html_unescape_def match_charref_def replace_charref_def html5_excerpt_def
     ascii_def is_name_char_def opt_semicolon_def replace_nbsp_def str_split_def is_space_def)

section \<open>Properties of the tree normalizer, the flatteners and the lookups\<close>

lemmas eval_dict = key_def ascii_def dict_get_def dict_get_default_def has_key_def

lemma normalize_category:
  "has_key d ''category'' \<Longrightarrow>
   normalize_node (PDict d) pp =
     (case (case children_raw d of
              PList items \<Rightarrow> normalize_children items (pp @ [dict_get d ''category''])
            | PDict kvs \<Rightarrow> normalize_children (map fst kvs) (pp @ [dict_get d ''category''])
            | PStr s \<Rightarrow> Inr []
            | _ \<Rightarrow> Inl TypeError) of
        Inl e \<Rightarrow> Inl e
      | Inr children \<Rightarrow>
          Inr (Some (make_category_node (dict_get d ''category'') (dict_get d ''heCategory'')
                       (pp @ [dict_get d ''category'']) children)))"
  by (simp add: Let_def)

lemma normalize_book:
  "\<not> has_key d ''category'' \<Longrightarrow> has_key d ''title'' \<Longrightarrow>
   normalize_node (PDict d) pp =
     Inr (Some (make_book_node (dict_get d ''title'') (dict_get d ''heTitle'')
        (case dict_get d ''categories'' of
           PList cs \<Rightarrow> if cs \<noteq> [] then cs else pp @ [dict_get d ''title'']
         | _ \<Rightarrow> pp @ [dict_get d ''title''])))"
  by (simp add: Let_def)

lemma normalize_unknown:
  "\<not> has_key d ''category'' \<Longrightarrow> \<not> has_key d ''title'' \<Longrightarrow> normalize_node (PDict d) pp = Inr None"
  by simp

lemma wf_category:
  "has_key d ''category'' \<Longrightarrow>
   wf_node (PDict d) = (\<not> has_key d ''title'' \<and> (\<exists>cs. children_raw d = PList cs \<and> list_all wf_node cs))"
  by (auto split: pyval.splits)

lemma wf_book:
  "\<not> has_key d ''category'' \<Longrightarrow> has_key d ''title'' \<Longrightarrow> wf_node (PDict d) = (raw_children d = [])"
  by simp

lemma wf_not_dict: "wf_node raw \<Longrightarrow> \<exists>d. raw = PDict d"
  by (cases raw) auto

lemma leaves_category:
  "has_key d ''category'' \<Longrightarrow> \<not> has_key d ''title'' \<Longrightarrow>
   title_leaves (PDict d) pp =
     concat (map (\<lambda>c. title_leaves c (pp @ [dict_get d ''category''])) (raw_children d))"
  by simp

lemma leaves_book:
  "\<not> has_key d ''category'' \<Longrightarrow> has_key d ''title'' \<Longrightarrow> raw_children d = [] \<Longrightarrow>
   title_leaves (PDict d) pp = [(d, pp)]"
  by simp

lemma leaves_unknown:
  "\<not> has_key d ''category'' \<Longrightarrow> \<not> has_key d ''title'' \<Longrightarrow> title_leaves (PDict d) pp = []"
  by simp

lemmas [simp del] = normalize_node.simps wf_node.simps title_leaves.simps

lemma flatten_wf:
  "(wf_node raw \<longrightarrow>
      (\<exists>r. normalize_node raw pp = Inr r
         \<and> concat (map walk (opt_list r)) = map leaf_record (title_leaves raw pp)))"
  "(list_all wf_node items \<longrightarrow>
      (\<exists>cs. normalize_children items pp' = Inr cs
         \<and> concat (map walk cs) = map leaf_record (concat (map (\<lambda>c. title_leaves c pp') items))))"
proof (induction raw pp and items pp' rule: normalize_node_normalize_children.induct)
  case (1 raw parent_path)
  show ?case
  proof
    assume wf: "wf_node raw"
    then obtain d where d: "raw = PDict d" using wf_not_dict by blast
    consider (cat) "has_key d ''category''"
      | (book) "\<not> has_key d ''category''" "has_key d ''title''"
      | (unknown) "\<not> has_key d ''category''" "\<not> has_key d ''title''"
      by blast
    then show "\<exists>r. normalize_node raw parent_path = Inr r
         \<and> concat (map walk (opt_list r)) = map leaf_record (title_leaves raw parent_path)"
    proof cases
      case cat
      with wf d obtain cs where cs: "\<not> has_key d ''title''" "children_raw d = PList cs" "list_all wf_node cs"
        by (auto simp: wf_category)
      let ?path = "parent_path @ [dict_get d ''category'']"
      from "1.IH"(1) [OF d cat refl refl refl cs(2)] cs(3)
      obtain ch where ch: "normalize_children cs ?path = Inr ch"
        "concat (map walk ch) = map leaf_record (concat (map (\<lambda>c. title_leaves c ?path) cs))"
        by blast
      have rc: "raw_children d = cs" by (simp add: raw_children_def cs(2))
      show ?thesis
        using cat cs ch rc d
        by (simp add: normalize_category leaves_category opt_list_def make_category_node_def)
    next
      case book
      with wf d have leaf: "raw_children d = []" by (simp add: wf_book)
      show ?thesis
        using book leaf d
        by (simp add: normalize_book leaves_book opt_list_def make_book_node_def leaf_record_def)
    next
      case unknown
      then show ?thesis using d
        by (simp add: normalize_unknown leaves_unknown opt_list_def)
    qed
  qed
next
  case (2 path)
  show ?case by simp
next
  case (3 child_raw rest path)
  show ?case
  proof
    assume wf: "list_all wf_node (child_raw # rest)"
    then have w1: "wf_node child_raw" and w2: "list_all wf_node rest" by auto
    from "3.IH"(1) w1 obtain r where r: "normalize_node child_raw path = Inr r"
      "concat (map walk (opt_list r)) = map leaf_record (title_leaves child_raw path)" by blast
    from "3.IH"(2) [OF r(1)] w2 obtain cs where cs: "normalize_children rest path = Inr cs"
      "concat (map walk cs) = map leaf_record (concat (map (\<lambda>c. title_leaves c path) rest))" by blast
    show "\<exists>cs. normalize_children (child_raw # rest) path = Inr cs
         \<and> concat (map walk cs) = map leaf_record (concat (map (\<lambda>c. title_leaves c path) (child_raw # rest)))"
      using r cs by (cases r) (auto simp: opt_list_def)
  qed
qed

lemmas eval_tree = normalize_node.simps wf_node.simps title_leaves.simps children_raw_def
  raw_children_def py_or_def make_category_node_def make_book_node_def leaf_record_def
  build_library_tree_def build_flat_book_list_def

text \<open>
  Claim C10. A raw node with both a \<^verbatim>\<open>"category"\<close> and a \<^verbatim>\<open>"title"\<close> is never dropped and never
  becomes a book: whenever \<^verbatim>\<open>_normalize_node\<close> returns for it, the result is a category node
  named by the category field, which adds no record of its own to the flat book list (with
  no contents it is the category node without children). For any raw value, the node
  returned is a category exactly when the raw dict has a \<^verbatim>\<open>"category"\<close>, and a book exactly
  when it has a \<^verbatim>\<open>"title"\<close> and no \<^verbatim>\<open>"category"\<close>.
\<close>

theorem category_check_first:
  "(has_key d ''category'' \<and> has_key d ''title'' \<longrightarrow>
      normalize_node (PDict d) pp \<noteq> Inr None
      \<and> (\<forall>n. normalize_node (PDict d) pp = Inr (Some n) \<longrightarrow>
             node_type n = Category \<and> node_title n = dict_get d ''category''
             \<and> node_path n = pp @ [dict_get d ''category'']
             \<and> build_flat_book_list n = concat (map walk (node_children n)))
      \<and> (children_raw d = PList [] \<longrightarrow>
             normalize_node (PDict d) pp =
               Inr (Some (make_category_node (dict_get d ''category'') (dict_get d ''heCategory'')
                            (pp @ [dict_get d ''category'']) []))))
   \<and> (\<forall>n. normalize_node raw pp = Inr (Some n) \<longrightarrow>
          (\<exists>r. raw = PDict r
               \<and> (node_type n = Category \<longleftrightarrow> has_key r ''category'')
               \<and> (node_type n = Book \<longleftrightarrow> \<not> has_key r ''category'' \<and> has_key r ''title'')))"
proof -
  have a: "normalize_node (PDict d) pp \<noteq> Inr None
      \<and> (\<forall>n. normalize_node (PDict d) pp = Inr (Some n) \<longrightarrow>
             node_type n = Category \<and> node_title n = dict_get d ''category''
             \<and> node_path n = pp @ [dict_get d ''category'']
             \<and> build_flat_book_list n = concat (map walk (node_children n)))
      \<and> (children_raw d = PList [] \<longrightarrow>
             normalize_node (PDict d) pp =
               Inr (Some (make_category_node (dict_get d ''category'') (dict_get d ''heCategory'')
                            (pp @ [dict_get d ''category'']) [])))"
    if "has_key d ''category''"
    using that
    by (auto simp: normalize_category make_category_node_def build_flat_book_list_def
             split: sum.splits pyval.splits)
  have b: "\<exists>r. raw = PDict r
               \<and> (node_type n = Category \<longleftrightarrow> has_key r ''category'')
               \<and> (node_type n = Book \<longleftrightarrow> \<not> has_key r ''category'' \<and> has_key r ''title'')"
    if "normalize_node raw pp = Inr (Some n)" for n
    using that
    by (cases raw)
       (auto simp: normalize_node.simps normalize_other_def py_contains_def Let_def
                   make_category_node_def make_book_node_def
             split: sum.splits if_splits bool.splits pyval.splits)
  from a b show ?thesis by blast
qed

text \<open>The theorem at \<^verbatim>\<open>{"category": "X", "title": "Y"}\<close>.\<close>

theorem category_check_first_witness:
  "has_key both_fields ''category'' \<and> has_key both_fields ''title''
   \<and> normalize_node (PDict both_fields) []
       = Inr (Some (TreeNode (PStr (ascii ''X'')) PNone Category [PStr (ascii ''X'')] []))
   \<and> build_flat_book_list (TreeNode (PStr (ascii ''X'')) PNone Category [PStr (ascii ''X'')] []) = []"
proof -
  have h: "has_key both_fields ''category'' \<and> has_key both_fields ''title''"
    by (simp add: both_fields_def eval_dict)
  have c: "children_raw both_fields = PList []"
    by (simp add: both_fields_def children_raw_def py_or_def eval_dict)
  have g: "dict_get both_fields ''category'' = PStr (ascii ''X'')"
    "dict_get both_fields ''heCategory'' = PNone"
    by (simp_all add: both_fields_def eval_dict)
  from category_check_first [of both_fields "[]" PNone] h c g
  show ?thesis by (simp add: make_category_node_def build_flat_book_list_def)
qed

text \<open>
  \<^verbatim>\<open>flatten_library_tree\<close> of make_tree.py builds no nodes; it takes its category branch only
  when \<^verbatim>\<open>"contents"\<close> is present as well, so the same dict without contents gives a book
  record there.
\<close>

lemma flatten_library_tree_needs_contents:
  "flatten_library_tree (PList [PDict both_fields])
     = Inr [[(key ''title'', PStr (ascii ''Y'')), (key ''heTitle'', PNone), (key ''categories'', PList [])]]"
  by (simp add: flatten_library_tree_def both_fields_def eval_dict)

lemma normalize_children_drop:
  "\<not> has_key d ''category'' \<Longrightarrow> \<not> has_key d ''title'' \<Longrightarrow>
   normalize_children (xs @ PDict d # ys) pp = normalize_children (xs @ ys) pp"
  by (induction xs) (auto simp: normalize_unknown split: sum.splits)

text \<open>
  Claim C7. For a payload of well-formed nodes, \<^verbatim>\<open>build_library_tree\<close> returns a tree and
  \<^verbatim>\<open>build_flat_book_list\<close> of it is the list of the records of the title-bearing leaves of
  the payload, one per leaf, in depth-first pre-order. A dict with neither a \<^verbatim>\<open>"category"\<close>
  nor a \<^verbatim>\<open>"title"\<close> is normalized to nothing without an error, whatever it contains: the
  tree built from a payload is the tree built from the payload without that node.
\<close>

theorem flatten_build_tree_leaves:
  "(list_all wf_node payload \<longrightarrow>
      (\<exists>tree. build_library_tree fetched (PList payload) = Inr tree
         \<and> build_flat_book_list tree
             = map leaf_record (concat (map (\<lambda>c. title_leaves c []) payload))))
   \<and> (\<not> has_key d ''category'' \<and> \<not> has_key d ''title'' \<longrightarrow>
        normalize_node (PDict d) pp = Inr None
        \<and> title_leaves (PDict d) pp = []
        \<and> normalize_children (xs @ PDict d # ys) pp = normalize_children (xs @ ys) pp
        \<and> build_library_tree fetched (PList (xs @ PDict d # ys)) = build_library_tree fetched (PList (xs @ ys)))"
proof -
  have a: "\<exists>tree. build_library_tree fetched (PList payload) = Inr tree
         \<and> build_flat_book_list tree
             = map leaf_record (concat (map (\<lambda>c. title_leaves c []) payload))"
    if "list_all wf_node payload"
  proof -
    from flatten_wf(2) [of payload "[]"] that
    obtain cs where cs: "normalize_children payload [] = Inr cs"
      "concat (map walk cs) = map leaf_record (concat (map (\<lambda>c. title_leaves c []) payload))"
      by blast
    then show ?thesis
      by (simp add: build_library_tree_def build_flat_book_list_def)
  qed
  have b: "normalize_node (PDict d) pp = Inr None
        \<and> title_leaves (PDict d) pp = []
        \<and> normalize_children (xs @ PDict d # ys) pp = normalize_children (xs @ ys) pp
        \<and> build_library_tree fetched (PList (xs @ PDict d # ys)) = build_library_tree fetched (PList (xs @ ys))"
    if "\<not> has_key d ''category'' \<and> \<not> has_key d ''title''"
    using that normalize_children_drop [of d xs ys]
    by (simp add: normalize_unknown leaves_unknown build_library_tree_def)
  from a b show ?thesis by blast
qed

lemma mixed_wf: "list_all wf_node mixed_payload"
  by (simp add: mixed_payload_def eval_tree eval_dict)

lemma mixed_leaves: "map leaf_record (concat (map (\<lambda>c. title_leaves c []) mixed_payload)) =
     [[(key ''title'', PStr (ascii ''Genesis'')), (key ''heTitle'', PStr bereshit),
       (key ''path'', PList [PStr (ascii ''Tanakh''), PStr (ascii ''Genesis'')])],
      [(key ''title'', PStr (ascii ''Exodus'')), (key ''heTitle'', PNone),
       (key ''path'', PList [PStr (ascii ''Tanakh''), PStr (ascii ''Exodus'')])]]"
  by (simp add: mixed_payload_def eval_tree eval_dict)

text \<open>The theorem at a payload of two books around a node with neither field.\<close>

theorem flatten_build_tree_leaves_witness:
  "list_all wf_node mixed_payload
   \<and> (\<exists>tree. build_library_tree (Inr PNone) (PList mixed_payload) = Inr tree
        \<and> build_flat_book_list tree =
           [[(key ''title'', PStr (ascii ''Genesis'')), (key ''heTitle'', PStr bereshit),
             (key ''path'', PList [PStr (ascii ''Tanakh''), PStr (ascii ''Genesis'')])],
            [(key ''title'', PStr (ascii ''Exodus'')), (key ''heTitle'', PNone),
             (key ''path'', PList [PStr (ascii ''Tanakh''), PStr (ascii ''Exodus'')])]])
   \<and> \<not> has_key [(key ''name'', PStr (ascii ''stray''))] ''category''
   \<and> \<not> has_key [(key ''name'', PStr (ascii ''stray''))] ''title''
   \<and> normalize_node (PDict [(key ''name'', PStr (ascii ''stray''))]) [] = Inr None"
proof -
  have s: "\<not> has_key [(key ''name'', PStr (ascii ''stray''))] ''category''
           \<and> \<not> has_key [(key ''name'', PStr (ascii ''stray''))] ''title''"
    by (simp add: eval_dict)
  from flatten_build_tree_leaves [of mixed_payload "Inr PNone" "[(key ''name'', PStr (ascii ''stray''))]" "[]" "[]" "[]"]
  show ?thesis
    using mixed_wf s by (simp add: mixed_leaves)
qed

lemma tanakh_flat_books:
  "map_sum id build_flat_book_list (build_library_tree fetched tanakh_payload) = Inr [genesis_path_record]"
  by (simp add: tanakh_payload_def genesis_path_record_def eval_tree eval_dict Let_def)

lemma tanakh_title_lookup:
  "build_title_lookup [genesis_path_record]
     = Inr [PStr (ascii ''Genesis'') \<mapsto> genesis_path_record, PStr bereshit \<mapsto> genesis_path_record]"
  by (simp add: build_title_lookup_def store_def genesis_path_record_def bereshit_def Let_def eval_dict)

text \<open>
  Claim C3, as amended. A book node whose raw record has a non-empty list under
  \<^verbatim>\<open>"categories"\<close> is normalized with that list as its path, whatever the parent path. For
  the payload of the scenario (a book without a category list under the category Tanakh),
  \<^verbatim>\<open>build_flat_book_list\<close> of the tree gives exactly one record, whose path is
  \<^verbatim>\<open>["Tanakh", "Genesis"]\<close>, and \<^verbatim>\<open>build_title_lookup\<close> of that list has the keys
  \<^verbatim>\<open>Genesis\<close> and the Hebrew title; \<^verbatim>\<open>flatten_library_tree\<close> of make_tree.py gives exactly
  one record, whose category trail is \<^verbatim>\<open>["Tanakh"]\<close>, and \<^verbatim>\<open>build_book_lookup\<close> of that list
  has the keys \<^verbatim>\<open>genesis\<close> and the Hebrew title.
\<close>

theorem explicit_categories_and_scenario:
  "(\<not> has_key d ''category'' \<and> has_key d ''title''
      \<and> dict_get d ''categories'' = PList cs \<and> cs \<noteq> [] \<longrightarrow>
        normalize_node (PDict d) pp
          = Inr (Some (make_book_node (dict_get d ''title'') (dict_get d ''heTitle'') cs))
        \<and> node_path (make_book_node (dict_get d ''title'') (dict_get d ''heTitle'') cs) = cs)
   \<and> map_sum id build_flat_book_list (build_library_tree fetched tanakh_payload)
       = Inr [genesis_path_record]
   \<and> dict_get genesis_path_record ''path'' = PList [PStr (ascii ''Tanakh''), PStr (ascii ''Genesis'')]
   \<and> build_title_lookup [genesis_path_record]
       = Inr [PStr (ascii ''Genesis'') \<mapsto> genesis_path_record, PStr bereshit \<mapsto> genesis_path_record]
   \<and> flatten_library_tree tanakh_payload = Inr [genesis_record]
   \<and> dict_get genesis_record ''categories'' = PList [PStr (ascii ''Tanakh'')]
   \<and> build_book_lookup lower_ascii [genesis_record] (ascii ''genesis'') = Some genesis_record
   \<and> build_book_lookup lower_ascii [genesis_record] bereshit = Some genesis_record"
proof -
  have 1: "flatten_library_tree tanakh_payload = Inr [genesis_record]"
    by (simp add: flatten_library_tree_def tanakh_payload_def genesis_record_def Let_def eval_dict)
  have 2: "dict_get genesis_record ''categories'' = PList [PStr (ascii ''Tanakh'')]"
    by (simp add: genesis_record_def eval_dict)
  have 3: "build_book_lookup lower_ascii [genesis_record] (ascii ''genesis'') = Some genesis_record"
    by (simp add: build_book_lookup_def book_lookup_step_def genesis_record_def lower_ascii_def
        bereshit_def eval_dict)
  have 4: "build_book_lookup lower_ascii [genesis_record] bereshit = Some genesis_record"
    by (simp add: build_book_lookup_def book_lookup_step_def genesis_record_def lower_ascii_def
        bereshit_def eval_dict)
  have 5: "dict_get genesis_path_record ''path'' = PList [PStr (ascii ''Tanakh''), PStr (ascii ''Genesis'')]"
    by (simp add: genesis_path_record_def eval_dict)
  show ?thesis
    using 1 2 3 4 5 tanakh_flat_books [of fetched] tanakh_title_lookup
    by (auto simp: normalize_book make_book_node_def)
qed

text \<open>The theorem at a record of Genesis with the category list Tanakh, Torah.\<close>

theorem explicit_categories_witness:
  "\<not> has_key genesis_raw ''category'' \<and> has_key genesis_raw ''title''
   \<and> dict_get genesis_raw ''categories'' = PList [PStr (ascii ''Tanakh''), PStr (ascii ''Torah'')]
   \<and> normalize_node (PDict genesis_raw) [PStr (ascii ''Elsewhere'')]
       = Inr (Some (TreeNode (PStr (ascii ''Genesis'')) (PStr bereshit) Book
                      [PStr (ascii ''Tanakh''), PStr (ascii ''Torah'')] []))"
proof -
  have h: "\<not> has_key genesis_raw ''category'' \<and> has_key genesis_raw ''title''
      \<and> dict_get genesis_raw ''categories'' = PList [PStr (ascii ''Tanakh''), PStr (ascii ''Torah'')]
      \<and> [PStr (ascii ''Tanakh''), PStr (ascii ''Torah'')] \<noteq> []"
    by (simp add: genesis_raw_def eval_dict)
  have t: "dict_get genesis_raw ''title'' = PStr (ascii ''Genesis'')"
    "dict_get genesis_raw ''heTitle'' = PStr bereshit"
    by (simp_all add: genesis_raw_def eval_dict)
  from explicit_categories_and_scenario [of genesis_raw "[PStr (ascii ''Tanakh''), PStr (ascii ''Torah'')]"
       "[PStr (ascii ''Elsewhere'')]" "Inr PNone"] h t
  show ?thesis by (simp add: make_book_node_def)
qed

text \<open>
  Claim C3 as stated fails: the one record of the flat book list of the scenario has the
  path \<^verbatim>\<open>["Tanakh", "Genesis"]\<close>, since a path derived from the walk ends with the title of
  the book, and the lookup built from it has the title as written as key, not
  \<^verbatim>\<open>genesis\<close>.
\<close>

theorem scenario_path_ends_with_title:
  "map_sum id build_flat_book_list (build_library_tree (Inr PNone) tanakh_payload)
     = Inr [genesis_path_record]
   \<and> dict_get genesis_path_record ''path'' = PList [PStr (ascii ''Tanakh''), PStr (ascii ''Genesis'')]
   \<and> dict_get genesis_path_record ''path'' \<noteq> PList [PStr (ascii ''Tanakh'')]
   \<and> build_title_lookup [genesis_path_record]
       = Inr [PStr (ascii ''Genesis'') \<mapsto> genesis_path_record, PStr bereshit \<mapsto> genesis_path_record]
   \<and> [PStr (ascii ''Genesis'') \<mapsto> genesis_path_record, PStr bereshit \<mapsto> genesis_path_record]
        (PStr (ascii ''genesis'')) = None"
proof -
  have "[PStr (ascii ''Genesis'') \<mapsto> genesis_path_record, PStr bereshit \<mapsto> genesis_path_record]
        (PStr (ascii ''genesis'')) = None"
    by (simp add: ascii_def bereshit_def)
  moreover have "dict_get genesis_path_record ''path'' = PList [PStr (ascii ''Tanakh''), PStr (ascii ''Genesis'')]"
    by (simp add: genesis_path_record_def eval_dict)
  ultimately show ?thesis
    using tanakh_flat_books [of "Inr PNone"] tanakh_title_lookup by simp
qed

lemma find_snoc:
  "List.find P (xs @ [x]) = (case List.find P xs of None \<Rightarrow> (if P x then Some x else None) | Some y \<Rightarrow> Some y)"
  by (induction xs) auto

lemma book_lookup_step_apply:
  "book_lookup_step lower m b k = (if k \<in> set (book_keys lower b) then Some b else m k)"
  by (auto simp: book_lookup_step_def book_keys_def Let_def split: pyval.splits)

lemma foldl_book_lookup:
  "foldl (book_lookup_step lower) m books k =
     (case List.find (\<lambda>b. k \<in> set (book_keys lower b)) (rev books) of
        None \<Rightarrow> m k | Some b \<Rightarrow> Some b)"
proof (induction books arbitrary: m)
  case Nil
  show ?case by simp
next
  case (Cons b books)
  let ?P = "\<lambda>b. k \<in> set (book_keys lower b)"
  have "foldl (book_lookup_step lower) m (b # books) k
          = foldl (book_lookup_step lower) (book_lookup_step lower m b) books k"
    by simp
  also have "\<dots> = (case List.find ?P (rev books) of
                      None \<Rightarrow> book_lookup_step lower m b k | Some b \<Rightarrow> Some b)"
    by (rule Cons.IH)
  also have "\<dots> = (case List.find ?P (rev (b # books)) of None \<Rightarrow> m k | Some b \<Rightarrow> Some b)"
    by (simp add: find_snoc book_lookup_step_apply split: option.splits)
  finally show ?case .
qed

lemma build_book_lookup_find:
  "build_book_lookup lower books k = List.find (\<lambda>b. k \<in> set (book_keys lower b)) (rev books)"
  by (simp add: build_book_lookup_def foldl_book_lookup split: option.splits)

lemma find_SomeD: "List.find P xs = Some x \<Longrightarrow> x \<in> set xs \<and> P x"
  by (induction xs) (auto split: if_splits)

lemma find_rev_Some:
  "b \<in> set books \<Longrightarrow> P b \<Longrightarrow> \<exists>b'. List.find P (rev books) = Some b' \<and> b' \<in> set books \<and> P b'"
proof -
  assume "b \<in> set books" "P b"
  then have "List.find P (rev books) \<noteq> None" by (auto simp: find_None_iff)
  then obtain b' where b': "List.find P (rev books) = Some b'" by auto
  from find_SomeD [OF this] b' show ?thesis by auto
qed

lemma store_apply:
  "store m k b = Inr m' \<Longrightarrow> m' = m(k \<mapsto> b)"
  by (auto simp: store_def split: pyval.splits)

lemma title_lookup_loop_find:
  "title_lookup_loop m books = Inr m' \<Longrightarrow>
     m' k = (case List.find (\<lambda>b. k \<in> set (title_keys b)) (rev books) of
               None \<Rightarrow> m k | Some b \<Rightarrow> Some b)"
proof (induction books arbitrary: m)
  case Nil
  then show ?case by simp
next
  case (Cons b books)
  from Cons.prems obtain m1 m2 where
    m1: "(if truthy (dict_get b ''title'') then store m (dict_get b ''title'') b else Inr m) = Inr m1"
    and m2: "(if truthy (dict_get b ''heTitle'') then store m1 (dict_get b ''heTitle'') b else Inr m1) = Inr m2"
    and rest: "title_lookup_loop m2 books = Inr m'"
    by (auto simp: Let_def split: sum.splits)
  have "m2 k = (if k \<in> set (title_keys b) then Some b else m k)"
    using m1 m2 by (auto simp: title_keys_def dest!: store_apply split: if_splits)
  with Cons.IH [OF rest] show ?case
    by (simp add: find_snoc split: option.splits)
qed

text \<open>
  Claim C8, as amended. \<^verbatim>\<open>build_book_lookup\<close> stores every record under its lower-cased
  title and under its Hebrew title as written (each when it is a string), a later record
  replacing an earlier one under the same key: the entry of a key is the last record of
  the list that has the key. So for a record with the title \<open>t\<close> the entry of
  \<open>lower t\<close> is the last record whose lower-cased title or whose Hebrew title is
  \<open>lower t\<close>. \<^verbatim>\<open>build_title_lookup\<close> does the same with the titles as written.
\<close>

theorem build_book_lookup_last_writer:
  "build_book_lookup lower books k = List.find (\<lambda>b. k \<in> set (book_keys lower b)) (rev books)
   \<and> (\<forall>b \<in> set books. \<forall>t. dict_get b ''title'' = PStr t \<longrightarrow>
         (\<exists>b' \<in> set books. build_book_lookup lower books (lower t) = Some b'
             \<and> lower t \<in> set (book_keys lower b')))
   \<and> (\<forall>b \<in> set books. \<forall>h. dict_get b ''heTitle'' = PStr h \<longrightarrow>
         (\<exists>b' \<in> set books. build_book_lookup lower books h = Some b'
             \<and> h \<in> set (book_keys lower b')))
   \<and> (\<forall>lookup. build_title_lookup books = Inr lookup \<longrightarrow>
         lookup j = List.find (\<lambda>b. j \<in> set (title_keys b)) (rev books))"
proof -
  have a: "build_book_lookup lower books k = List.find (\<lambda>b. k \<in> set (book_keys lower b)) (rev books)"
    by (rule build_book_lookup_find)
  have b: "\<exists>b' \<in> set books. build_book_lookup lower books (lower t) = Some b'
             \<and> lower t \<in> set (book_keys lower b')"
    if "b \<in> set books" "dict_get b ''title'' = PStr t" for b t
  proof -
    have "lower t \<in> set (book_keys lower b)" using that(2) by (simp add: book_keys_def)
    from find_rev_Some [of b books "\<lambda>b. lower t \<in> set (book_keys lower b)", OF that(1) this]
    show ?thesis by (auto simp: build_book_lookup_find)
  qed
  have c: "\<exists>b' \<in> set books. build_book_lookup lower books h = Some b'
             \<and> h \<in> set (book_keys lower b')"
    if "b \<in> set books" "dict_get b ''heTitle'' = PStr h" for b h
  proof -
    have "h \<in> set (book_keys lower b)" using that(2) by (simp add: book_keys_def)
    from find_rev_Some [of b books "\<lambda>b. h \<in> set (book_keys lower b)", OF that(1) this]
    show ?thesis by (auto simp: build_book_lookup_find)
  qed
  have d: "lookup j = List.find (\<lambda>b. j \<in> set (title_keys b)) (rev books)"
    if "build_title_lookup books = Inr lookup" for lookup
    using title_lookup_loop_find [of Map.empty books lookup j] that
    by (simp add: build_title_lookup_def split: option.splits)
  from a b c d show ?thesis by blast
qed

text \<open>
  Claim C8 as stated fails: with the titles \<^verbatim>\<open>Genesis\<close> and \<^verbatim>\<open>GENESIS\<close> in this order, the
  entry of \<^verbatim>\<open>genesis\<close> is the second record, which does not bear the title \<^verbatim>\<open>Genesis\<close>; the
  last record bearing that title is the first one.
\<close>

theorem build_book_lookup_other_title:
  "build_book_lookup lower_ascii [genesis_lower, genesis_upper] (lower_ascii (ascii ''Genesis''))
     = Some genesis_upper
   \<and> dict_get genesis_upper ''title'' \<noteq> PStr (ascii ''Genesis'')
   \<and> List.find (\<lambda>b. dict_get b ''title'' = PStr (ascii ''Genesis'')) (rev [genesis_lower, genesis_upper])
     = Some genesis_lower
   \<and> genesis_lower \<noteq> genesis_upper"
  by (simp add: build_book_lookup_def book_lookup_step_def lower_ascii_def genesis_lower_def genesis_upper_def eval_dict)

text \<open>The theorem at these two records.\<close>

theorem build_book_lookup_last_writer_witness:
  "genesis_lower \<in> set [genesis_lower, genesis_upper]
   \<and> dict_get genesis_lower ''title'' = PStr (ascii ''Genesis'')
   \<and> build_book_lookup lower_ascii [genesis_lower, genesis_upper] (lower_ascii (ascii ''Genesis''))
       = Some genesis_upper
   \<and> lower_ascii (ascii ''Genesis'') \<in> set (book_keys lower_ascii genesis_upper)
   \<and> (\<exists>lookup. build_title_lookup [genesis_lower, genesis_upper] = Inr lookup
         \<and> lookup (PStr (ascii ''Genesis'')) = Some genesis_lower
         \<and> lookup (PStr (ascii ''genesis'')) = None)"
proof -
  have e: "build_book_lookup lower_ascii [genesis_lower, genesis_upper] (lower_ascii (ascii ''Genesis''))
       = Some genesis_upper"
    by (simp add: build_book_lookup_def book_lookup_step_def lower_ascii_def genesis_lower_def genesis_upper_def eval_dict)
  have t: "dict_get genesis_lower ''title'' = PStr (ascii ''Genesis'')"
    by (simp add: genesis_lower_def eval_dict)
  have l: "build_title_lookup [genesis_lower, genesis_upper]
             = Inr ([PStr (ascii ''Genesis'') \<mapsto> genesis_lower, PStr (ascii ''GENESIS'') \<mapsto> genesis_upper])"
    by (simp add: build_title_lookup_def store_def genesis_lower_def genesis_upper_def eval_dict Let_def)
  have m: "genesis_lower \<in> set [genesis_lower, genesis_upper]" by simp
  from build_book_lookup_last_writer [of lower_ascii "[genesis_lower, genesis_upper]" "[]" PNone]
  have "\<forall>b \<in> set [genesis_lower, genesis_upper]. \<forall>t. dict_get b ''title'' = PStr t \<longrightarrow>
         (\<exists>b' \<in> set [genesis_lower, genesis_upper].
             build_book_lookup lower_ascii [genesis_lower, genesis_upper] (lower_ascii t) = Some b'
             \<and> lower_ascii t \<in> set (book_keys lower_ascii b'))"
    by blast
  with m t obtain b' where
    "build_book_lookup lower_ascii [genesis_lower, genesis_upper] (lower_ascii (ascii ''Genesis'')) = Some b'"
    "lower_ascii (ascii ''Genesis'') \<in> set (book_keys lower_ascii b')"
    by blast
  with e have k: "lower_ascii (ascii ''Genesis'') \<in> set (book_keys lower_ascii genesis_upper)"
    by simp
  have g: "PStr (ascii ''genesis'') \<noteq> PStr (ascii ''Genesis'')"
    "PStr (ascii ''genesis'') \<noteq> PStr (ascii ''GENESIS'')"
    "PStr (ascii ''Genesis'') \<noteq> PStr (ascii ''GENESIS'')"
    by (simp_all add: ascii_def)
  show ?thesis
    using k e t l g by simp
qed

section \<open>Properties of the aggregators\<close>

lemma summary_title_error: "summary_title td ref = Inl e \<Longrightarrow> local_error e"
  by (auto simp: summary_title_def local_error_def split: if_splits list.splits)

lemma clean_lines_error: "clean_lines html5 ls = Inl e \<Longrightarrow> local_error e"
  by (induction ls) (auto simp: local_error_def split: if_splits pyval.splits sum.splits)

lemma py_iter_error: "py_iter v = Inl e \<Longrightarrow> local_error e"
  by (auto simp: py_iter_def local_error_def split: pyval.splits)

lemma py_first_error: "py_first v = Inl e \<Longrightarrow> local_error e"
  by (auto simp: py_first_def local_error_def split: pyval.splits list.splits option.splits)

lemma simplify_link_error: "simplify_link l a = Inl e \<Longrightarrow> local_error e"
  unfolding simplify_link_def Let_def
  by (cases l) (auto simp: local_error_def split: if_splits sum.splits dest: py_iter_error py_first_error)

lemma related_loop_error: "related_loop g raws a m = Inl e \<Longrightarrow> local_error e"
proof (induction g raws a m rule: related_loop.induct)
  case (1 grouped anchor_ref max_per_cat)
  then show ?case by simp
next
  case (2 grouped raw rest anchor_ref max_per_cat)
  show ?case
  proof (cases "simplify_link raw anchor_ref")
    case (Inl e')
    with "2.prems" show ?thesis by (auto dest: simplify_link_error)
  next
    case (Inr simplified)
    show ?thesis
    proof (cases "hashable (dict_get simplified ''category'')")
      case False
      with Inr "2.prems" show ?thesis by (simp add: local_error_def)
    next
      case True
      with Inr "2.prems" "2.IH" [OF Inr refl _ refl refl refl] show ?thesis
        by (simp add: Let_def)
    qed
  qed
qed

lemma build_related_error: "build_related_by_category links a m = Inl e \<Longrightarrow> local_error e"
  by (auto simp: build_related_by_category_def split: sum.splits dest: py_iter_error related_loop_error)

lemma attr_get_error: "attr_get x k = Inl e \<Longrightarrow> local_error e"
  by (auto simp: attr_get_def local_error_def split: pyval.splits)

lemma topic_object_error: "topic_object d t = Inl e \<Longrightarrow> local_error e"
  unfolding topic_object_def Let_def
  by (auto split: sum.splits if_splits dest: attr_get_error)

lemma collect_topics_error: "collect_topics items = Inl e \<Longrightarrow> local_error e"
  by (induction items) (auto split: pyval.splits if_splits sum.splits dest: topic_object_error)

lemma extract_topic_objects_error: "extract_topic_objects raw = Inl e \<Longrightarrow> local_error e"
  by (auto simp: extract_topic_objects_def split: pyval.splits sum.splits dest: collect_topics_error)

lemma complete_when_returned:
  "build_ref_summary html5 gw ref lang context version m = Inr s \<Longrightarrow> complete_summary s"
proof -
  assume r: "build_ref_summary html5 gw ref lang context version m = Inr s"
  then obtain td title cleaned related topics_raw objs where
    s: "s = PDict
                 [(key ''ref'', dict_get_default td ''ref'' (PStr ref)),
                  (key ''title'', title),
                  (key ''heTitle'', dict_get td ''heTitle''),
                  (key ''sectionNames'', dict_get td ''sectionNames''),
                  (key ''sections'', dict_get td ''sections''),
                  (key ''versionTitle'', dict_get td ''versionTitle''),
                  (key ''heVersionTitle'', dict_get td ''heVersionTitle''),
                  (key ''next'', dict_get td ''next''),
                  (key ''prev'', dict_get td ''prev''),
                  (key ''text'',
                   PDict [(key ''lang'', PStr lang),
                          (key ''raw'', PList (summary_raw_lines td lang)),
                          (key ''cleaned'', PList (map PStr cleaned))]),
                  (key ''relatedSourcesByCategory'', PDict related),
                  (key ''topics'',
                   PDict [(key ''ids'', PList (map PStr (extract_topic_slugs topics_raw))),
                          (key ''objects'', PList objs)])]"
    and o: "extract_topic_objects topics_raw = Inr objs"
    unfolding build_ref_summary_def Let_def
    by (auto split: sum.splits pyval.splits)
  have "list_all is_topic_object objs"
  proof (cases topics_raw)
    case (PList items)
    with o obtain ts where t: "collect_topics items = Inr ts" and d: "objs = dedupe_by_id {} ts"
      by (auto simp: extract_topic_objects_def split: sum.splits)
    from collect_topics_shape [OF t] dedupe_by_id_subset [of "{}" ts] d
    show ?thesis by (auto simp: list_all_iff)
  qed (use o in \<open>auto simp: extract_topic_objects_def\<close>)
  then show ?thesis
    unfolding s complete_summary_def
    by (simp add: eval_dict is_list_def is_dict_def is_str_list_def list_all_iff)
qed

lemma error_when_raised:
  "build_ref_summary html5 gw ref lang context version m = Inl e \<Longrightarrow>
     get_text gw ref lang context version = Inl e \<or> get_links gw ref = Inl e
     \<or> get_ref_topics gw ref = Inl e \<or> local_error e"
  unfolding build_ref_summary_def Let_def
  by (auto simp: local_error_def [of AttributeError] split: sum.splits pyval.splits
           dest: summary_title_error clean_lines_error build_related_error extract_topic_objects_error)

lemma get_text_error:
  "get_text gw ref lang context version = Inl e \<Longrightarrow>
     e = TransportError Texts \<or> e = JSONDecodeError Texts \<or> (\<exists>c. e = HTTPStatusError Texts c)"
  by (auto simp: get_text_def requests_get_json_def split: reply.splits if_splits option.splits)

text \<open>
  Claim C2, as amended. For every input, \<^verbatim>\<open>build_ref_summary\<close> either raises one error or
  returns a structurally complete summary, never a partial or null one. The error raised is
  the failure of the text fetch, of the links fetch or of the topics fetch, or an exception
  of a helper on a malformed payload; a failure of the text fetch is raised as it is and
  names the texts endpoint.
\<close>

theorem build_ref_summary_raises_or_complete:
  "(\<forall>s. build_ref_summary html5 gw ref lang context version m = Inr s \<longrightarrow> complete_summary s)
   \<and> (\<forall>e. build_ref_summary html5 gw ref lang context version m = Inl e \<longrightarrow>
          get_text gw ref lang context version = Inl e \<or> get_links gw ref = Inl e
          \<or> get_ref_topics gw ref = Inl e \<or> local_error e)
   \<and> (\<forall>e. get_text gw ref lang context version = Inl e \<longrightarrow>
          build_ref_summary html5 gw ref lang context version m = Inl e
          \<and> (e = TransportError Texts \<or> e = JSONDecodeError Texts \<or> (\<exists>c. e = HTTPStatusError Texts c)))"
proof (intro conjI allI impI)
  fix s
  assume "build_ref_summary html5 gw ref lang context version m = Inr s"
  then show "complete_summary s" by (rule complete_when_returned)
next
  fix e
  assume "build_ref_summary html5 gw ref lang context version m = Inl e"
  then show "get_text gw ref lang context version = Inl e \<or> get_links gw ref = Inl e
          \<or> get_ref_topics gw ref = Inl e \<or> local_error e"
    by (rule error_when_raised)
next
  fix e
  assume "get_text gw ref lang context version = Inl e"
  then show "build_ref_summary html5 gw ref lang context version m = Inl e"
    by (simp add: build_ref_summary_def)
next
  fix e
  assume "get_text gw ref lang context version = Inl e"
  then show "e = TransportError Texts \<or> e = JSONDecodeError Texts \<or> (\<exists>c. e = HTTPStatusError Texts c)"
    by (rule get_text_error)
qed

lemma fetch_all_up:
  "get_text gw_all_up genesis_1_1 lang context version = Inr genesis_text"
  "get_links gw_all_up genesis_1_1 = Inr genesis_links"
  "get_ref_topics gw_all_up genesis_1_1 = Inr genesis_topics"
  by (simp_all add: get_text_def get_links_def get_ref_topics_def requests_get_json_def gw_all_up_def)

lemma genesis_title: "summary_title genesis_fields genesis_1_1 = Inr (PStr (ascii ''Genesis''))"
  by (simp add: genesis_fields_def summary_title_def genesis_1_1_def str_split_def is_space_def eval_dict)

lemma genesis_raw_lines:
  "summary_raw_lines genesis_fields (ascii ''he'') = [PStr (ascii ''<b>'' @ bereshit @ ascii ''</b>'')]"
  by (simp add: genesis_fields_def summary_raw_lines_def eval_dict)

lemma genesis_gets:
  "dict_get_default genesis_fields ''ref'' (PStr genesis_1_1) = PStr genesis_1_1"
  "dict_get genesis_fields ''heTitle'' = PStr bereshit"
  "dict_get genesis_fields ''sectionNames'' = PNone"
  "dict_get genesis_fields ''sections'' = PNone"
  "dict_get genesis_fields ''versionTitle'' = PNone"
  "dict_get genesis_fields ''heVersionTitle'' = PNone"
  "dict_get genesis_fields ''next'' = PNone"
  "dict_get genesis_fields ''prev'' = PNone"
  by (simp_all add: genesis_fields_def eval_dict)

lemma genesis_clean:
  "clean_lines html5_excerpt [PStr (ascii ''<b>'' @ bereshit @ ascii ''</b>'')] = Inr [bereshit]"
  by (simp add: clean_he_string_def html_unescape_def replace_nbsp_def str_split_def is_space_def
       bereshit_def ascii_def)

lemma genesis_related:
  "build_related_by_category genesis_links (PStr genesis_1_1) 5 =
     Inr [(PStr (ascii ''Commentary''),
                     PList [PDict [(key ''category'', PStr (ascii ''Commentary'')),
                                   (key ''type'', PStr (ascii ''commentary'')),
                                   (key ''sourceRef'', PStr (ascii ''Rashi on Genesis 1:1:1'')),
                                   (key ''anchorRef'', PStr genesis_1_1)]]),
                    (PStr (ascii ''Midrash''),
                     PList [PDict [(key ''category'', PStr (ascii ''Midrash'')),
                                   (key ''type'', PStr []),
                                   (key ''sourceRef'', PStr (ascii ''Bereshit Rabbah 1:1'')),
                                   (key ''anchorRef'', PStr genesis_1_1)]])]"
  by (simp add: build_related_by_category_def py_iter_def genesis_links_def simplify_link_def
       py_or_def hashable_def genesis_1_1_def Let_def eval_dict)

lemma genesis_topic_ids: "extract_topic_slugs genesis_topics = [ascii ''creation'']"
  by (simp add: genesis_topics_def extract_topic_slugs_def topic_link_def BLACKLISTED_TOPIC_IDS_def eval_dict)

lemma genesis_topic_objs:
  "extract_topic_objects genesis_topics =
     Inr [PDict [(key ''id'', PStr (ascii ''creation'')), (key ''title'', PNone), (key ''source'', PNone)]]"
  by (simp add: genesis_topics_def extract_topic_objects_def topic_link_def topic_object_def
        attr_get_def py_or_def BLACKLISTED_TOPIC_IDS_def topic_tid_def eval_dict)

lemma all_up_summary:
  "build_ref_summary html5_excerpt gw_all_up genesis_1_1 (ascii ''he'') 0 PNone 5 = Inr genesis_summary"
  unfolding build_ref_summary_def
  by (simp only: fetch_all_up genesis_text_def genesis_title genesis_raw_lines genesis_gets
        genesis_clean genesis_related genesis_topic_ids genesis_topic_objs genesis_summary_def
        Let_def sum.case pyval.case list.map)

lemma build_ref_summary_returns:
  assumes "get_text gw ref lang context version = Inr (PDict td)"
    and "get_links gw ref = Inr links"
    and "get_ref_topics gw ref = Inr topics"
    and "summary_title td ref = Inr title"
    and "clean_lines html5 (summary_raw_lines td lang) = Inr cleaned"
    and "build_related_by_category links (dict_get_default td ''ref'' (PStr ref)) m = Inr related"
    and "extract_topic_objects topics = Inr objs"
  shows "build_ref_summary html5 gw ref lang context version m =
     Inr (PDict
                 [(key ''ref'', dict_get_default td ''ref'' (PStr ref)),
                  (key ''title'', title),
                  (key ''heTitle'', dict_get td ''heTitle''),
                  (key ''sectionNames'', dict_get td ''sectionNames''),
                  (key ''sections'', dict_get td ''sections''),
                  (key ''versionTitle'', dict_get td ''versionTitle''),
                  (key ''heVersionTitle'', dict_get td ''heVersionTitle''),
                  (key ''next'', dict_get td ''next''),
                  (key ''prev'', dict_get td ''prev''),
                  (key ''text'',
                   PDict [(key ''lang'', PStr lang),
                          (key ''raw'', PList (summary_raw_lines td lang)),
                          (key ''cleaned'', PList (map PStr cleaned))]),
                  (key ''relatedSourcesByCategory'', PDict related),
                  (key ''topics'',
                   PDict [(key ''ids'', PList (map PStr (extract_topic_slugs topics))),
                          (key ''objects'', PList objs)])])"
  unfolding build_ref_summary_def
  by (simp only: assms Let_def sum.case pyval.case)

lemma related_of_no_links: "build_related_by_category (PList []) a m = Inr []"
  by (simp add: build_related_by_category_def py_iter_def)

lemma related_field_of_no_links:
  assumes "get_links gw ref = Inr (PList [])"
    and "build_ref_summary html5 gw ref lang context version m = Inr s"
  shows "summary_field s ''relatedSourcesByCategory'' = PDict []"
  using assms unfolding build_ref_summary_def Let_def
  by (auto simp: related_of_no_links summary_field_def eval_dict split: sum.splits pyval.splits)

lemma links_error_raised:
  assumes "get_text gw ref lang context version = Inr text_data" and "get_links gw ref = Inl e"
  shows "build_ref_summary html5 gw ref lang context version m = Inl e"
  using assms by (simp add: build_ref_summary_def)

lemma topics_error_raised:
  assumes "get_text gw ref lang context version = Inr text_data" and "get_links gw ref = Inr links"
    and "get_ref_topics gw ref = Inl e"
  shows "build_ref_summary html5 gw ref lang context version m = Inl e"
  using assms by (simp add: build_ref_summary_def)

lemma optional_json_failed: "reply_failed (gw ep ref) \<Longrightarrow> optional_json gw ep ref dflt = Inr dflt"
  by (auto simp: optional_json_def reply_failed_def split: reply.splits)

lemma optional_json_empty: "optional_json (gw(ep := \<lambda>path. Reply 200 (Some dflt))) ep ref dflt = Inr dflt"
  by (simp add: optional_json_def response_json_def)

lemma optional_json_other: "ep' \<noteq> ep \<Longrightarrow> optional_json (gw(ep := f)) ep' ref dflt = optional_json gw ep' ref dflt"
  by (simp add: optional_json_def)

lemma legacy_fallback_other:
  "ep \<noteq> Texts \<Longrightarrow> legacy_fallback (gw(ep := f)) ref texts = legacy_fallback gw ref texts"
  by (simp add: legacy_fallback_def)

lemma ref_info_texts_other:
  "ep \<noteq> TextsV3 \<Longrightarrow> ep \<noteq> Texts \<Longrightarrow> ref_info_texts (gw(ep := f)) ref = ref_info_texts gw ref"
  by (auto simp: ref_info_texts_def legacy_fallback_other Let_def
           split: reply.splits sum.splits pyval.splits)

lemma degrade_links:
  assumes "reply_failed (gw Links ref)"
  shows "get_ref_info gw ref = get_ref_info (gw(Links := \<lambda>path. Reply 200 (Some (PList [])))) ref"
  unfolding get_ref_info_def
  by (simp only: ref_info_texts_other optional_json_other optional_json_empty
        optional_json_failed [of gw Links ref, OF assms] endpoint.distinct not_False_eq_True)

lemma degrade_topics:
  assumes "reply_failed (gw RefTopicLinks ref)"
  shows "get_ref_info gw ref = get_ref_info (gw(RefTopicLinks := \<lambda>path. Reply 200 (Some (PList [])))) ref"
  unfolding get_ref_info_def
  by (simp only: ref_info_texts_other optional_json_other optional_json_empty
        optional_json_failed [of gw RefTopicLinks ref, OF assms] endpoint.distinct not_False_eq_True)

lemma degrade_related:
  assumes "reply_failed (gw Related ref)"
  shows "get_ref_info gw ref = get_ref_info (gw(Related := \<lambda>path. Reply 200 (Some (PDict [])))) ref"
  unfolding get_ref_info_def
  by (simp only: ref_info_texts_other optional_json_other optional_json_empty
        optional_json_failed [of gw Related ref, OF assms] endpoint.distinct not_False_eq_True)

text \<open>
  Claim C1, as amended. In \<^verbatim>\<open>get_ref_info\<close> a failed optional call (links, topics or
  related) is indistinguishable from a call that answered with an empty list, or an empty
  mapping for related: the result is the same, so every other field is as usual and no
  exception comes from the failure; when the texts are fetched and all three calls fail,
  the bundle is returned with three empty contributions. \<^verbatim>\<open>build_ref_summary\<close> raises the
  failure of \<^verbatim>\<open>get_links\<close> or \<^verbatim>\<open>get_ref_topics\<close>; its \<^verbatim>\<open>relatedSourcesByCategory\<close> is the empty
  dict when the links call returns an empty list.
\<close>

theorem optional_calls_degrade:
  "(reply_failed (gw Links ref) \<longrightarrow>
      get_ref_info gw ref = get_ref_info (gw(Links := \<lambda>path. Reply 200 (Some (PList [])))) ref)
   \<and> (reply_failed (gw RefTopicLinks ref) \<longrightarrow>
      get_ref_info gw ref = get_ref_info (gw(RefTopicLinks := \<lambda>path. Reply 200 (Some (PList [])))) ref)
   \<and> (reply_failed (gw Related ref) \<longrightarrow>
      get_ref_info gw ref = get_ref_info (gw(Related := \<lambda>path. Reply 200 (Some (PDict [])))) ref)
   \<and> (\<forall>texts. ref_info_texts gw ref = Inr texts \<and> reply_failed (gw Links ref)
          \<and> reply_failed (gw RefTopicLinks ref) \<and> reply_failed (gw Related ref) \<longrightarrow>
        get_ref_info gw ref =
          Inr (PDict [(key ''ref'', PStr ref), (key ''texts'', PDict texts),
                      (key ''links'', PList []), (key ''topics'', PList []),
                      (key ''related'', PDict [])]))
   \<and> (\<forall>text_data e. get_text gw ref lang context version = Inr text_data \<and> get_links gw ref = Inl e \<longrightarrow>
        build_ref_summary html5 gw ref lang context version m = Inl e)
   \<and> (\<forall>text_data links e. get_text gw ref lang context version = Inr text_data
          \<and> get_links gw ref = Inr links \<and> get_ref_topics gw ref = Inl e \<longrightarrow>
        build_ref_summary html5 gw ref lang context version m = Inl e)
   \<and> (\<forall>s. get_links gw ref = Inr (PList [])
          \<and> build_ref_summary html5 gw ref lang context version m = Inr s \<longrightarrow>
        summary_field s ''relatedSourcesByCategory'' = PDict [])"
proof (intro conjI allI impI)
  assume "reply_failed (gw Links ref)"
  then show "get_ref_info gw ref = get_ref_info (gw(Links := \<lambda>path. Reply 200 (Some (PList [])))) ref"
    by (rule degrade_links)
next
  assume "reply_failed (gw RefTopicLinks ref)"
  then show "get_ref_info gw ref = get_ref_info (gw(RefTopicLinks := \<lambda>path. Reply 200 (Some (PList [])))) ref"
    by (rule degrade_topics)
next
  assume "reply_failed (gw Related ref)"
  then show "get_ref_info gw ref = get_ref_info (gw(Related := \<lambda>path. Reply 200 (Some (PDict [])))) ref"
    by (rule degrade_related)
next
  fix texts
  assume "ref_info_texts gw ref = Inr texts \<and> reply_failed (gw Links ref)
          \<and> reply_failed (gw RefTopicLinks ref) \<and> reply_failed (gw Related ref)"
  then show "get_ref_info gw ref =
          Inr (PDict [(key ''ref'', PStr ref), (key ''texts'', PDict texts),
                      (key ''links'', PList []), (key ''topics'', PList []),
                      (key ''related'', PDict [])])"
    by (simp add: get_ref_info_def optional_json_failed)
next
  fix text_data e
  assume "get_text gw ref lang context version = Inr text_data \<and> get_links gw ref = Inl e"
  then show "build_ref_summary html5 gw ref lang context version m = Inl e"
    using links_error_raised by blast
next
  fix text_data links e
  assume "get_text gw ref lang context version = Inr text_data
          \<and> get_links gw ref = Inr links \<and> get_ref_topics gw ref = Inl e"
  then show "build_ref_summary html5 gw ref lang context version m = Inl e"
    using topics_error_raised by blast
next
  fix s
  assume "get_links gw ref = Inr (PList [])
          \<and> build_ref_summary html5 gw ref lang context version m = Inr s"
  then show "summary_field s ''relatedSourcesByCategory'' = PDict []"
    using related_field_of_no_links by blast
qed

lemma fetch_links_down:
  "get_text gw_links_down genesis_1_1 lang context version = Inr genesis_text"
  "get_links gw_links_down genesis_1_1 = Inl (HTTPStatusError Links 503)"
  by (simp_all add: get_text_def get_links_def requests_get_json_def gw_links_down_def gw_all_up_def)

lemma fetch_topics_down:
  "get_text gw_topics_down genesis_1_1 lang context version = Inr genesis_text"
  "get_links gw_topics_down genesis_1_1 = Inr genesis_links"
  "get_ref_topics gw_topics_down genesis_1_1 = Inl (TransportError RefTopicLinks)"
  by (simp_all add: get_text_def get_links_def get_ref_topics_def requests_get_json_def
        gw_topics_down_def gw_all_up_def)

lemma fetch_text_down:
  "get_text gw_text_down genesis_1_1 lang context version = Inl (HTTPStatusError Texts 404)"
  by (simp add: get_text_def requests_get_json_def gw_text_down_def gw_all_up_def)

lemma fetch_characters:
  "get_text gw_characters genesis_1_1 lang context version = Inr (PDict [(key ''he'', PList bet_resh)])"
  "get_links gw_characters genesis_1_1 = Inr genesis_links"
  "get_ref_topics gw_characters genesis_1_1 = Inr genesis_topics"
  by (simp_all add: get_text_def get_links_def get_ref_topics_def requests_get_json_def
        gw_characters_def gw_all_up_def)

text \<open>
  Claim C1 as stated fails: with the text fetched and the links endpoint answering 503,
  \<^verbatim>\<open>build_ref_summary\<close> raises the error of \<^verbatim>\<open>get_links\<close> and returns no summary.
\<close>

theorem build_ref_summary_raises_on_links_failure:
  "get_text gw_links_down genesis_1_1 (ascii ''he'') 0 PNone = Inr genesis_text
   \<and> build_ref_summary html5_excerpt gw_links_down genesis_1_1 (ascii ''he'') 0 PNone 5
       = Inl (HTTPStatusError Links 503)"
  by (simp add: build_ref_summary_def fetch_links_down)

text \<open>
  Claim C2 as stated fails: with the text and the links fetched and the topics call timing
  out, \<^verbatim>\<open>build_ref_summary\<close> raises the failure of the topics call, which is neither a
  summary nor an error of the required text step.
\<close>

theorem build_ref_summary_raises_on_topics_failure:
  "get_text gw_topics_down genesis_1_1 (ascii ''he'') 0 PNone = Inr genesis_text
   \<and> build_ref_summary html5_excerpt gw_topics_down genesis_1_1 (ascii ''he'') 0 PNone 5
       = Inl (TransportError RefTopicLinks)"
  by (simp add: build_ref_summary_def fetch_topics_down)

lemma optional_down_failed:
  "reply_failed (gw_optional_down Links genesis_1_1)"
  "reply_failed (gw_optional_down RefTopicLinks genesis_1_1)"
  "reply_failed (gw_optional_down Related genesis_1_1)"
  by (simp_all add: gw_optional_down_def reply_failed_def)

lemma optional_down_texts: "ref_info_texts gw_optional_down genesis_1_1 = Inr genesis_fields"
  by (simp add: ref_info_texts_def gw_optional_down_def gw_all_up_def response_json_def
        genesis_text_def py_or_def genesis_fields_def Let_def eval_dict)

text \<open>
  The theorem at a gateway whose three optional endpoints fail in three ways, and at a
  gateway whose links endpoint answers 503.
\<close>

theorem optional_calls_degrade_witness:
  "reply_failed (gw_optional_down Links genesis_1_1)
   \<and> reply_failed (gw_optional_down RefTopicLinks genesis_1_1)
   \<and> reply_failed (gw_optional_down Related genesis_1_1)
   \<and> ref_info_texts gw_optional_down genesis_1_1 = Inr genesis_fields
   \<and> get_ref_info gw_optional_down genesis_1_1 =
        Inr (PDict [(key ''ref'', PStr genesis_1_1), (key ''texts'', PDict genesis_fields),
                    (key ''links'', PList []), (key ''topics'', PList []),
                    (key ''related'', PDict [])])
   \<and> get_text gw_links_down genesis_1_1 (ascii ''he'') 0 PNone = Inr genesis_text
   \<and> get_links gw_links_down genesis_1_1 = Inl (HTTPStatusError Links 503)
   \<and> build_ref_summary html5_excerpt gw_links_down genesis_1_1 (ascii ''he'') 0 PNone 5
        = Inl (HTTPStatusError Links 503)"
proof -
  note a = optional_calls_degrade [of gw_optional_down genesis_1_1 "ascii ''he''" 0 PNone html5_excerpt 5]
  note b = optional_calls_degrade [of gw_links_down genesis_1_1 "ascii ''he''" 0 PNone html5_excerpt 5]
  have 1: "get_ref_info gw_optional_down genesis_1_1 =
        Inr (PDict [(key ''ref'', PStr genesis_1_1), (key ''texts'', PDict genesis_fields),
                    (key ''links'', PList []), (key ''topics'', PList []),
                    (key ''related'', PDict [])])"
    using a optional_down_failed optional_down_texts by blast
  have 2: "build_ref_summary html5_excerpt gw_links_down genesis_1_1 (ascii ''he'') 0 PNone 5
        = Inl (HTTPStatusError Links 503)"
    using b fetch_links_down(1) [of "ascii ''he''" 0 PNone] fetch_links_down(2) by blast
  show ?thesis
    using 1 2 optional_down_failed optional_down_texts fetch_links_down by simp
qed

text \<open>
  The theorem at the scenario, at a gateway whose texts endpoint answers 404 and at a
  gateway whose topics endpoint times out.
\<close>

theorem build_ref_summary_raises_or_complete_witness:
  "build_ref_summary html5_excerpt gw_all_up genesis_1_1 (ascii ''he'') 0 PNone 5 = Inr genesis_summary
   \<and> complete_summary genesis_summary
   \<and> get_text gw_text_down genesis_1_1 (ascii ''he'') 0 PNone = Inl (HTTPStatusError Texts 404)
   \<and> build_ref_summary html5_excerpt gw_text_down genesis_1_1 (ascii ''he'') 0 PNone 5
        = Inl (HTTPStatusError Texts 404)
   \<and> build_ref_summary html5_excerpt gw_topics_down genesis_1_1 (ascii ''he'') 0 PNone 5
        = Inl (TransportError RefTopicLinks)
   \<and> get_ref_topics gw_topics_down genesis_1_1 = Inl (TransportError RefTopicLinks)"
proof -
  note a = build_ref_summary_raises_or_complete
             [of html5_excerpt gw_all_up genesis_1_1 "ascii ''he''" 0 PNone 5]
  note b = build_ref_summary_raises_or_complete
             [of html5_excerpt gw_text_down genesis_1_1 "ascii ''he''" 0 PNone 5]
  have 1: "complete_summary genesis_summary"
    using a all_up_summary by blast
  have 2: "build_ref_summary html5_excerpt gw_text_down genesis_1_1 (ascii ''he'') 0 PNone 5
        = Inl (HTTPStatusError Texts 404)"
    using b fetch_text_down [of "ascii ''he''" 0 PNone] by blast
  have 3: "build_ref_summary html5_excerpt gw_topics_down genesis_1_1 (ascii ''he'') 0 PNone 5
        = Inl (TransportError RefTopicLinks)"
    by (simp add: build_ref_summary_def fetch_topics_down)
  show ?thesis
    using 1 2 3 all_up_summary fetch_text_down fetch_topics_down by simp
qed

lemma characters_title: "summary_title [(key ''he'', PList bet_resh)] genesis_1_1 = Inr (PStr (ascii ''Genesis''))"
  by (simp add: summary_title_def genesis_1_1_def str_split_def is_space_def eval_dict)

lemma characters_raw: "summary_raw_lines [(key ''he'', PList bet_resh)] (ascii ''he'') = bet_resh"
  by (simp add: summary_raw_lines_def eval_dict)

lemma characters_clean: "clean_lines html5_excerpt bet_resh = Inr [[0x5D1], [0x5E8]]"
  by (simp add: bet_resh_def clean_he_string_def html_unescape_def replace_nbsp_def str_split_def
        is_space_def ascii_def)

lemma characters_related:
  "build_related_by_category genesis_links
      (dict_get_default [(key ''he'', PList bet_resh)] ''ref'' (PStr genesis_1_1)) 5
     = build_related_by_category genesis_links (PStr genesis_1_1) 5"
  by (simp add: eval_dict)

text \<open>
  Claim C9 as stated fails: for a Hebrew text that arrives as the two characters bet and
  resh, \<^verbatim>\<open>build_ref_summary\<close> keeps two lines and cleans each on its own; it does not join
  them into the one line that \<^verbatim>\<open>test_texts_api\<close> computes.
\<close>

theorem characters_stay_separate_lines:
  "summary_raw_lines [(key ''he'', PList bet_resh)] (ascii ''he'') = bet_resh
   \<and> clean_lines html5_excerpt bet_resh = Inr [[0x5D1], [0x5E8]]
   \<and> text_cleaned (build_ref_summary html5_excerpt gw_characters genesis_1_1 (ascii ''he'') 0 PNone 5)
       = Inr (PList bet_resh)
   \<and> raw_hebrew (PList bet_resh) = Inr [0x5D1, 0x5E8]"
proof -
  have "text_cleaned (build_ref_summary html5_excerpt gw_characters genesis_1_1 (ascii ''he'') 0 PNone 5)
       = Inr (PList bet_resh)"
    unfolding build_ref_summary_returns [OF fetch_characters characters_title
        characters_raw [THEN arg_cong, of "clean_lines html5_excerpt", THEN trans, OF characters_clean]
        characters_related [THEN trans, OF genesis_related] genesis_topic_objs]
    by (simp add: text_cleaned_def summary_field_def bet_resh_def eval_dict)
  moreover have "raw_hebrew (PList bet_resh) = Inr [0x5D1, 0x5E8]"
    by (simp add: raw_hebrew_def bet_resh_def py_iter_def is_char_def)
  ultimately show ?thesis
    using characters_raw characters_clean by simp
qed

lemma clean_lines_strings:
  "clean_lines html5 (map PStr ss) = Inr (map (clean_he_string html5) (filter (\<lambda>s. s \<noteq> []) ss))"
  by (induction ss) auto

lemma str_items_strings: "str_items (map PStr ss) = Inr ss"
  by (induction ss) auto

lemma str_join_empty: "str_join [] ss = concat ss"
  by (induction "[]::ustr" ss rule: str_join.induct) auto

lemma raw_hebrew_characters:
  assumes "ss \<noteq> []" and "\<forall>s \<in> set ss. length s = 1"
  shows "raw_hebrew (PList (map PStr ss)) = Inr (concat ss)"
proof -
  have "list_all is_char (map PStr ss)"
    using assms(2) by (simp add: list_all_iff is_char_def)
  then show ?thesis
    using assms(1) by (simp add: raw_hebrew_def py_iter_def str_items_strings str_join_empty)
qed

text \<open>
  Claim C9, as amended. In the text normalization of \<^verbatim>\<open>build_ref_summary\<close> a single string
  becomes a one-element line list, a list is taken as it is, each element its own line,
  and any other value gives no line; the lines are cleaned one by one in their order,
  empty ones skipped, so a list of single-character strings stays a list of
  single-character lines. Joining such a list into one line is what \<^verbatim>\<open>test_texts_api\<close>
  does.
\<close>

theorem text_lines_one_per_element:
  "(text_field td lang = PStr s \<longrightarrow> summary_raw_lines td lang = [PStr s])
   \<and> (text_field td lang = PList xs \<longrightarrow> summary_raw_lines td lang = xs)
   \<and> (text_field td lang = PNone \<or> text_field td lang = PBool b \<or> text_field td lang = PInt n
        \<or> text_field td lang = PDict d \<longrightarrow> summary_raw_lines td lang = [])
   \<and> clean_lines html5 (map PStr ss)
        = Inr (map (clean_he_string html5) (filter (\<lambda>s. s \<noteq> []) ss))
   \<and> (ss \<noteq> [] \<and> (\<forall>s \<in> set ss. length s = 1) \<longrightarrow>
        raw_hebrew (PList (map PStr ss)) = Inr (concat ss))"
  using raw_hebrew_characters [of ss]
  by (auto simp: summary_raw_lines_def text_field_def Let_def clean_lines_strings)

text \<open>
  The theorem at a Hebrew field of two characters, an English field that is one string and
  a field that is a number.
\<close>

theorem text_lines_one_per_element_witness:
  "text_field [(key ''he'', PList bet_resh)] (ascii ''he'') = PList bet_resh
   \<and> summary_raw_lines [(key ''he'', PList bet_resh)] (ascii ''he'') = bet_resh
   \<and> text_field [(key ''text'', PStr (ascii ''In the beginning''))] (ascii ''en'') = PStr (ascii ''In the beginning'')
   \<and> summary_raw_lines [(key ''text'', PStr (ascii ''In the beginning''))] (ascii ''en'')
        = [PStr (ascii ''In the beginning'')]
   \<and> text_field [(key ''he'', PInt 7)] (ascii ''he'') = PInt 7
   \<and> summary_raw_lines [(key ''he'', PInt 7)] (ascii ''he'') = []
   \<and> raw_hebrew (PList (map PStr [[0x5D1], [0x5E8]])) = Inr [0x5D1, 0x5E8]"
proof -
  have 1: "text_field [(key ''he'', PList bet_resh)] (ascii ''he'') = PList bet_resh"
    by (simp add: text_field_def eval_dict)
  have 2: "text_field [(key ''text'', PStr (ascii ''In the beginning''))] (ascii ''en'') = PStr (ascii ''In the beginning'')"
    by (simp add: text_field_def eval_dict)
  have 3: "text_field [(key ''he'', PInt 7)] (ascii ''he'') = PInt 7"
    by (simp add: text_field_def eval_dict)
  have 4: "[[0x5D1], [0x5E8]] \<noteq> ([] :: ustr list) \<and> (\<forall>s \<in> set [[0x5D1], [0x5E8 :: nat]]. length s = 1)"
    by simp
  note a = text_lines_one_per_element [of "[(key ''he'', PList bet_resh)]" "ascii ''he''" "[]" bet_resh
             True 0 "[]" html5_excerpt "[[0x5D1], [0x5E8]]"]
  note b = text_lines_one_per_element [of "[(key ''text'', PStr (ascii ''In the beginning''))]" "ascii ''en''"
             "ascii ''In the beginning''" "[]" True 0 "[]" html5_excerpt "[]"]
  note c = text_lines_one_per_element [of "[(key ''he'', PInt 7)]" "ascii ''he''" "[]" "[]"
             True 7 "[]" html5_excerpt "[]"]
  have 5: "summary_raw_lines [(key ''he'', PList bet_resh)] (ascii ''he'') = bet_resh"
    using a 1 by blast
  have 6: "raw_hebrew (PList (map PStr [[0x5D1], [0x5E8]])) = Inr (concat [[0x5D1], [0x5E8]])"
    using a 4 by blast
  have 7: "summary_raw_lines [(key ''text'', PStr (ascii ''In the beginning''))] (ascii ''en'')
        = [PStr (ascii ''In the beginning'')]"
    using b 2 by blast
  have 8: "summary_raw_lines [(key ''he'', PInt 7)] (ascii ''he'') = []"
    using c 3 by blast
  show ?thesis
    using 1 2 3 5 6 7 8 by simp
qed

end
